theory Spec2Isabelle
  imports Complex_Main
begin

section \<open>Data model\<close>

text \<open>
  The card generation workflow of the English Flash Cards Generator: the route
  \<^verbatim>\<open>app/api/cards/generate/route.ts\<close> with its background function, the OpenAI service
  \<^verbatim>\<open>src/lib/openai.ts\<close>, the status route
  \<^verbatim>\<open>app/api/cards/generation/[sessionId]/route.ts\<close>, the helpers of
  \<^verbatim>\<open>src/lib/auth.ts\<close> and \<^verbatim>\<open>src/lib/errors.ts\<close>, and \<^verbatim>\<open>CardRepository.approveCard\<close>.

  Identifiers are strings. A timestamp is a number of milliseconds since the epoch, in
  UTC (the resolution of a JavaScript \<^verbatim>\<open>Date\<close>). Rows of a table are kept in a list, in
  insertion order.
\<close>

type_synonym timestamp = nat

datatype CardType = SingleWord | Category

datatype CardStatus = Generating | Preview | Approved | Downloaded

datatype SessionStatus = Pending | Processing | Completed | Failed

datatype DifficultyLevel = Beginner | Intermediate | Advanced

datatype AgeGroup = Preschool | Elementary | MiddleSchool

datatype StylePreference = Cartoon | Realistic | Minimalist

record GenerationParams =
  difficulty_level :: DifficultyLevel
  age_group :: AgeGroup
  style_preference :: StylePreference
  language :: string

record AICosts =
  text_tokens :: nat
  image_generations :: nat
  total_cost_usd :: rat

record Scene =
  scene_id :: string
  description :: string
  image_url :: string
  image_prompt :: string

record CardLayout =
  layout_format :: string
  layout_orientation :: string
  layout_theme :: string

record CardContent =
  primary_word :: string
  scenes :: "Scene list"
  category_words :: "string list option"
  layout :: CardLayout

text \<open>Rows of the tables \<^verbatim>\<open>users\<close>, \<^verbatim>\<open>generation_sessions\<close>, \<^verbatim>\<open>flash_cards\<close>,
  \<^verbatim>\<open>card_scenes\<close> and \<^verbatim>\<open>usage_tracking\<close>, with the columns the routes read and write.
  \<^verbatim>\<open>retry_count INTEGER DEFAULT 0\<close> is the column of the database setup script;
  \<^verbatim>\<open>subscription_tier\<close> is a nullable text column.\<close>

record User =
  u_id :: string
  u_subscription_tier :: "string option"

record GenerationSession =
  gs_id :: string
  gs_user_id :: string
  gs_input_prompt :: string
  gs_generation_type :: string
  gs_status :: SessionStatus
  gs_error_message :: "string option"
  gs_ai_costs :: AICosts
  gs_retry_count :: nat
  gs_created_at :: timestamp
  gs_completed_at :: "timestamp option"

record FlashCard =
  fc_id :: string
  fc_user_id :: string
  fc_session_id :: string
  fc_title :: string
  fc_card_type :: CardType
  fc_content :: CardContent
  fc_generation_params :: GenerationParams
  fc_status :: CardStatus
  fc_created_at :: timestamp
  fc_updated_at :: timestamp

record CardScene =
  cs_card_id :: string
  cs_scene_order :: nat
  cs_description :: string
  cs_image_url :: string
  cs_image_prompt :: string

record UsageRow =
  ut_user_id :: string
  ut_period_start :: nat
  ut_period_end :: nat
  ut_cards_generated :: nat
  ut_total_ai_cost :: rat

text \<open>The calls made to the OpenAI client, in the order they are issued.\<close>

datatype api_call =
    ChatCompletion string CardType
  | Moderation string
  | ImageGenerate string string

record world =
  users :: "User list"
  generation_sessions :: "GenerationSession list"
  flash_cards :: "FlashCard list"
  card_scenes :: "CardScene list"
  usage_tracking :: "UsageRow list"
  api_log :: "api_call list"

section \<open>The external collaborators\<close>

text \<open>
  What the OpenAI client and the Supabase client answer during one request is a
  parameter of the model.

  \<^item> \<^verbatim>\<open>process.env.OPENAI_API_KEY\<close> is set or not; without it the constructor of the
    service throws.
  \<^item> \<^verbatim>\<open>chat.completions.create\<close> followed by \<^verbatim>\<open>JSON.parse\<close>: the call throws, returns no
    content, returns text that does not parse, or returns the parsed object. (A parsed
    object without a list of scenes makes the next statement throw; it is among the answers
    that throw.)
  \<^item> \<^verbatim>\<open>moderations.create\<close>: the call throws, or returns a list of results, each with its
    \<^verbatim>\<open>flagged\<close> field and its \<^verbatim>\<open>categories\<close> object (the entries in order).
  \<^item> \<^verbatim>\<open>images.generate\<close>, by the position of the call in the loop and its prompt: the
    call throws, or returns the \<^verbatim>\<open>data\<close> array (the \<^verbatim>\<open>url\<close> of each entry, if any).
  \<^item> a Supabase query that is awaited throws, resolves with an error (its \<^verbatim>\<open>data\<close> and
    \<^verbatim>\<open>count\<close> are null), or resolves with the rows; an insert resolves with an error message or
    with the identifier the database gave the new row; an update or upsert is applied or
    resolves with an error and leaves the table as it was.
\<close>

record RawScene =
  rs_id :: string
  rs_description :: string
  rs_image_prompt :: string

record TextContent =
  tc_title :: string
  tc_primary_word :: string
  tc_category_words :: "string list option"
  tc_scenes :: "RawScene list"
  tc_usage :: "nat option"

datatype chat_response =
    ChatThrows string
  | ChatNoContent
  | ChatUnparseable
  | ChatParsed TextContent

record ModerationResult =
  flagged :: bool
  categories :: "(string \<times> bool) list"

datatype moderation_response =
    ModerationThrows string
  | ModerationResults "ModerationResult list"

datatype image_response =
    ImageThrows string
  | ImageData "string option list"

datatype lookup_outcome = LookupOk | LookupError | LookupThrows

datatype store_op =
    UpdateProcessing
  | InsertScenes
  | UpdateCompleted
  | UpsertUsage
  | UpdateFailed
  | HandlerUpdateFailed

record env =
  openai_api_key :: bool
  chat_api :: "string \<Rightarrow> CardType \<Rightarrow> GenerationParams \<Rightarrow> chat_response"
  moderation_api :: "string \<Rightarrow> moderation_response"
  image_api :: "nat \<Rightarrow> string \<Rightarrow> image_response"
  user_lookup :: lookup_outcome
  count_lookup :: lookup_outcome
  session_insert :: "string + string"
  card_insert :: "string + string"
  usage_throws :: bool
  store_ok :: "store_op \<Rightarrow> bool"

section \<open>Errors and request validation\<close>

text \<open>The exception classes of \<^verbatim>\<open>src/lib/errors.ts\<close> and \<^verbatim>\<open>src/lib/auth.ts\<close>; \<open>Error\<close> is a
  plain JavaScript error with its message.\<close>

datatype exn =
    APIError string string nat
  | AuthenticationError string
  | ValidationError string
  | Error string

definition QuotaExceededError :: "string option \<Rightarrow> exn" where
  "QuotaExceededError m =
     APIError ''QUOTA_EXCEEDED''
       (case m of None \<Rightarrow> ''Generation quota exceeded'' | Some s \<Rightarrow> s) 429"

record error_response =
  err_code :: string
  err_message :: string
  err_status :: nat

text \<open>\<^verbatim>\<open>handleAPIError\<close>, without the request identifier and the timestamp it attaches.\<close>

fun handleAPIError :: "exn \<Rightarrow> error_response" where
  "handleAPIError (APIError c m s) = \<lparr>err_code = c, err_message = m, err_status = s\<rparr>"
| "handleAPIError (AuthenticationError m) =
     \<lparr>err_code = ''UNAUTHORIZED'', err_message = m, err_status = 401\<rparr>"
| "handleAPIError (ValidationError m) =
     \<lparr>err_code = ''VALIDATION_ERROR'', err_message = m, err_status = 400\<rparr>"
| "handleAPIError (Error m) =
     \<lparr>err_code = ''INTERNAL_SERVER_ERROR'', err_message = ''An unexpected error occurred'',
      err_status = 500\<rparr>"

text \<open>A request: its body, if \<^verbatim>\<open>request.json()\<close> yields one, and the user of its session
  cookie, if any. \<^verbatim>\<open>validateRequest\<close> checks the body against the schema first, then the
  user.\<close>

record 'b request =
  req_body :: "'b option"
  req_user :: "string option"

definition validateRequest :: "('b \<Rightarrow> bool) \<Rightarrow> 'b request \<Rightarrow> exn + ('b \<times> string)" where
  "validateRequest schema req =
     (case req_body req of
        None \<Rightarrow> Inl (ValidationError ''Invalid request data'')
      | Some body \<Rightarrow>
          if \<not> schema body then Inl (ValidationError ''Invalid request data'')
          else (case req_user req of
                  None \<Rightarrow> Inl (AuthenticationError ''Authentication required'')
                | Some user \<Rightarrow> Inr (body, user)))"

record GenerateBody =
  input_prompt :: string
  card_type :: CardType
  generation_params :: GenerationParams

definition GenerateCardSchema :: "GenerateBody \<Rightarrow> bool" where
  "GenerateCardSchema body \<longleftrightarrow> 1 \<le> length (input_prompt body) \<and> length (input_prompt body) \<le> 200"

section \<open>Strings\<close>

fun join :: "string \<Rightarrow> string list \<Rightarrow> string" where
  "join sep [] = []"
| "join sep [x] = x"
| "join sep (x # y # ys) = x @ sep @ join sep (y # ys)"

definition digit_char :: "nat \<Rightarrow> char" where
  "digit_char d = ''0123456789'' ! d"

fun string_of_nat :: "nat \<Rightarrow> string" where
  "string_of_nat n =
     (if n < 10 then [digit_char n] else string_of_nat (n div 10) @ [digit_char (n mod 10)])"

section \<open>The quota gate\<close>

text \<open>The table \<^verbatim>\<open>quotaLimits\<close> of \<^verbatim>\<open>checkUserQuota\<close>. A tier that is not a key of the
  table has no limit: the lookup yields \<^verbatim>\<open>undefined\<close>, and \<^verbatim>\<open>todayCount >= undefined\<close> is
  false. (A name that the object inherits, such as \<^verbatim>\<open>constructor\<close>, yields a function; the
  comparison with it is false as well.)\<close>

definition quotaLimits :: "(string \<times> nat) list" where
  "quotaLimits = [(''free'', 5), (''educator'', 50), (''premium'', 200)]"

record QuotaCheck =
  allowed :: bool
  message :: "string option"

definition msPerDay :: nat where
  "msPerDay = 86400000"

text \<open>\<^verbatim>\<open>new Date().toISOString().split('T')[0]\<close>: the UTC day of the clock, here as the
  number of the day. The query counts the rows of the user with
  \<^verbatim>\<open>created_at >= `${today}T00:00:00.000Z`\<close> and \<^verbatim>\<open>created_at < `${today}T23:59:59.999Z`\<close>.\<close>

definition today :: "timestamp \<Rightarrow> nat" where
  "today now = now div msPerDay"

definition dayStart :: "nat \<Rightarrow> timestamp" where
  "dayStart d = d * msPerDay"

definition dayEnd :: "nat \<Rightarrow> timestamp" where
  "dayEnd d = d * msPerDay + (msPerDay - 1)"

definition sessionsToday :: "world \<Rightarrow> string \<Rightarrow> timestamp \<Rightarrow> nat" where
  "sessionsToday w userId now =
     length (filter (\<lambda>s. gs_user_id s = userId
                        \<and> dayStart (today now) \<le> gs_created_at s
                        \<and> gs_created_at s < dayEnd (today now))
               (generation_sessions w))"

text \<open>\<^verbatim>\<open>.single()\<close>: the row when the query matches exactly one, null otherwise.\<close>

fun single :: "'a list \<Rightarrow> 'a option" where
  "single [x] = Some x"
| "single _ = None"

definition userTier :: "env \<Rightarrow> world \<Rightarrow> string \<Rightarrow> string" where
  "userTier e w userId =
     (let user = (if user_lookup e = LookupOk
                  then single (filter (\<lambda>u. u_id u = userId) (users w)) else None)
      in case user of
           None \<Rightarrow> ''free''
         | Some u \<Rightarrow>
             (case u_subscription_tier u of
                None \<Rightarrow> ''free''
              | Some t \<Rightarrow> if t = [] then ''free'' else t))"

definition quotaMessage :: "nat \<Rightarrow> string" where
  "quotaMessage dailyLimit =
     ''Daily limit of '' @ string_of_nat dailyLimit
       @ '' cards reached. Upgrade to generate more cards.''"

text \<open>\<^verbatim>\<open>checkUserQuota\<close>. Whatever is thrown inside the \<^verbatim>\<open>try\<close> block ends in the
  \<^verbatim>\<open>catch\<close>, which allows the call.\<close>

definition checkUserQuota :: "env \<Rightarrow> world \<Rightarrow> string \<Rightarrow> timestamp \<Rightarrow> QuotaCheck" where
  "checkUserQuota e w userId now =
     (if user_lookup e = LookupThrows then \<lparr>allowed = True, message = None\<rparr>
      else
        let tier = userTier e w userId;
            dailyLimit = map_of quotaLimits tier
        in if count_lookup e = LookupThrows then \<lparr>allowed = True, message = None\<rparr>
           else
             let count = (if count_lookup e = LookupOk
                          then Some (sessionsToday w userId now) else None);
                 todayCount = (case count of None \<Rightarrow> 0 | Some c \<Rightarrow> c)
             in case dailyLimit of
                  None \<Rightarrow> \<lparr>allowed = True, message = None\<rparr>
                | Some l \<Rightarrow>
                    if todayCount \<ge> l
                    then \<lparr>allowed = False, message = Some (quotaMessage l)\<rparr>
                    else \<lparr>allowed = True, message = None\<rparr>)"

section \<open>The generate route\<close>

text \<open>The insert of the route: the columns it gives, the defaults of the table for the
  others. The identifier is the primary key, so an identifier already in the table is
  refused.\<close>

definition zeroCosts :: AICosts where
  "zeroCosts = \<lparr>text_tokens = 0, image_generations = 0, total_cost_usd = 0\<rparr>"

definition newSession :: "string \<Rightarrow> string \<Rightarrow> GenerateBody \<Rightarrow> timestamp \<Rightarrow> GenerationSession" where
  "newSession sid user body now =
     \<lparr>gs_id = sid, gs_user_id = user, gs_input_prompt = input_prompt body,
      gs_generation_type =
        (if card_type body = SingleWord then ''single_word_card'' else ''category_card''),
      gs_status = Pending, gs_error_message = None, gs_ai_costs = zeroCosts,
      gs_retry_count = 0, gs_created_at = now, gs_completed_at = None\<rparr>"

definition insertSession ::
  "env \<Rightarrow> world \<Rightarrow> string \<Rightarrow> GenerateBody \<Rightarrow> timestamp \<Rightarrow> (world \<times> GenerationSession) option" where
  "insertSession e w user body now =
     (case session_insert e of
        Inl err \<Rightarrow> None
      | Inr sid \<Rightarrow>
          if sid \<in> set (map gs_id (generation_sessions w)) then None
          else Some (w\<lparr>generation_sessions := generation_sessions w @ [newSession sid user body now]\<rparr>,
                     newSession sid user body now))"

text \<open>\<^verbatim>\<open>POST\<close>, up to its response. The background function it starts is
  \<open>generateCardAsync\<close> below; it runs after the response is built. \<open>now\<close> is the clock
  of the request: it gives the day of the quota check and \<^verbatim>\<open>created_at\<close> of the new row.\<close>

definition POST ::
  "env \<Rightarrow> world \<Rightarrow> GenerateBody request \<Rightarrow> timestamp \<Rightarrow> world \<times> (error_response + GenerationSession)" where
  "POST e w req now =
     (case validateRequest GenerateCardSchema req of
        Inl x \<Rightarrow> (w, Inl (handleAPIError x))
      | Inr (body, user) \<Rightarrow>
          let quotaCheck = checkUserQuota e w user now
          in if \<not> allowed quotaCheck
             then (w, Inl (handleAPIError (QuotaExceededError (message quotaCheck))))
             else (case insertSession e w user body now of
                     None \<Rightarrow>
                       (w, Inl (handleAPIError (Error ''Failed to create generation session'')))
                   | Some (w', session) \<Rightarrow> (w', Inr session)))"

section \<open>The OpenAI service\<close>

text \<open>The constructor of \<^verbatim>\<open>OpenAIService\<close>.\<close>

definition newOpenAIService :: "env \<Rightarrow> string + unit" where
  "newOpenAIService e =
     (if \<not> openai_api_key e then Inl ''OPENAI_API_KEY environment variable is required''
      else Inr ())"

text \<open>\<^verbatim>\<open>generateTextContent\<close>: the completion call and the parse of its answer.\<close>

definition generateTextContent ::
  "env \<Rightarrow> string \<Rightarrow> CardType \<Rightarrow> GenerationParams \<Rightarrow> string + TextContent" where
  "generateTextContent e prompt cardType params =
     (case chat_api e prompt cardType params of
        ChatThrows m \<Rightarrow> Inl m
      | ChatNoContent \<Rightarrow> Inl ''No content generated''
      | ChatUnparseable \<Rightarrow> Inl ''Failed to parse AI response''
      | ChatParsed textContent \<Rightarrow> Inr textContent)"

text \<open>\<^verbatim>\<open>moderateContent\<close>: only the first result is read; a flagged result throws with the
  names of the categories whose entry is true.\<close>

definition policyViolation :: "(string \<times> bool) list \<Rightarrow> string" where
  "policyViolation cats =
     ''Content policy violation: '' @ join '', '' (map fst (filter snd cats))"

definition moderateContent :: "env \<Rightarrow> string \<Rightarrow> string + unit" where
  "moderateContent e content =
     (case moderation_api e content of
        ModerationThrows m \<Rightarrow> Inl m
      | ModerationResults results \<Rightarrow>
          (case results of
             [] \<Rightarrow> Inr ()
           | r # _ \<Rightarrow> if flagged r then Inl (policyViolation (categories r)) else Inr ()))"

fun style_name :: "StylePreference \<Rightarrow> string" where
  "style_name Cartoon = ''cartoon''"
| "style_name Realistic = ''realistic''"
| "style_name Minimalist = ''minimalist''"

definition enhancedPrompt :: "RawScene \<Rightarrow> GenerationParams \<Rightarrow> string" where
  "enhancedPrompt scene params =
     rs_image_prompt scene @ '', '' @ style_name (style_preference params)
       @ '' style, child-friendly, colorful, educational, high quality, 3:4 aspect ratio''"

definition imageStyle :: "GenerationParams \<Rightarrow> string" where
  "imageStyle params = (if style_preference params = Realistic then ''natural'' else ''vivid'')"

text \<open>\<^verbatim>\<open>response.data[0]?.url\<close>, and the test \<^verbatim>\<open>!imageUrl\<close>, which an absent and an empty
  address both pass: then the loop body throws and its own \<^verbatim>\<open>catch\<close> pushes the scene with
  the empty address.\<close>

fun imageUrl :: "image_response \<Rightarrow> string option" where
  "imageUrl (ImageThrows m) = None"
| "imageUrl (ImageData []) = None"
| "imageUrl (ImageData (None # _)) = None"
| "imageUrl (ImageData (Some url # _)) = (if url = [] then None else Some url)"

definition generatedScene :: "RawScene \<Rightarrow> string \<Rightarrow> Scene" where
  "generatedScene scene url =
     \<lparr>scene_id = rs_id scene, description = rs_description scene, image_url = url,
      image_prompt = rs_image_prompt scene\<rparr>"

text \<open>\<^verbatim>\<open>generateSceneImages\<close>: one call for each scene, in order; \<open>i\<close> is the number of
  calls already made. The result is the calls issued and \<^verbatim>\<open>generatedScenes\<close>.\<close>

fun generateSceneImages ::
  "env \<Rightarrow> GenerationParams \<Rightarrow> nat \<Rightarrow> RawScene list \<Rightarrow> api_call list \<times> Scene list" where
  "generateSceneImages e params i [] = ([], [])"
| "generateSceneImages e params i (scene # rest) =
     (let response = image_api e i (enhancedPrompt scene params);
          generated = (case imageUrl response of
                         Some url \<Rightarrow> generatedScene scene url
                       | None \<Rightarrow> generatedScene scene []);
          (calls, generatedScenes) = generateSceneImages e params (Suc i) rest
      in (ImageGenerate (enhancedPrompt scene params) (imageStyle params) # calls,
          generated # generatedScenes))"

text \<open>The numbers of \<^verbatim>\<open>calculateCosts\<close> are IEEE 754 doubles. A finite double that is
  not negative is kept as a fraction that has its exact value, numerator and denominator,
  zero as \<open>(0, 1)\<close>. \<open>roundToDouble p q\<close> is the double nearest to \<open>p / q\<close>: the quotient
  is scaled to a mantissa of 53 bits, and the remainder decides the last bit, a tie going
  to the even mantissa. Every literal and every operation of the source is rounded so.
  (The exponent is not bounded here: the costs are far from the ends of its range.)\<close>

type_synonym double = "nat \<times> nat"

fun bitLength :: "nat \<Rightarrow> nat" where
  "bitLength n = (if n = 0 then 0 else Suc (bitLength (n div 2)))"

declare bitLength.simps [simp del]

definition pack :: "nat \<Rightarrow> int \<Rightarrow> double" where
  "pack m e = (if 0 \<le> e then (m * 2 ^ nat e, 1) else (m, 2 ^ nat (- e)))"

definition tiesToEven :: "nat \<Rightarrow> nat \<Rightarrow> nat \<Rightarrow> int \<Rightarrow> double" where
  "tiesToEven m r den e =
     (if den < 2 * r \<or> (2 * r = den \<and> odd m) then pack (m + 1) e else pack m e)"

definition roundHalfEven :: "nat \<Rightarrow> nat \<Rightarrow> int \<Rightarrow> double" where
  "roundHalfEven num den e = tiesToEven (num div den) (num mod den) den e"

definition normalise :: "nat \<Rightarrow> nat \<Rightarrow> int \<Rightarrow> double" where
  "normalise num den e =
     (if 2 ^ 53 \<le> num div den then roundHalfEven num (den * 2) (e + 1)
      else roundHalfEven num den e)"

definition scale :: "nat \<Rightarrow> nat \<Rightarrow> int \<Rightarrow> double" where
  "scale p q e =
     (if 0 \<le> e then normalise p (q * 2 ^ nat e) e
      else normalise (p * 2 ^ nat (- e)) q e)"

definition roundToDouble :: "nat \<Rightarrow> nat \<Rightarrow> double" where
  "roundToDouble p q =
     (if p = 0 then (0, 1)
      else scale p q (int (bitLength p) - int (bitLength q) - 53))"

definition dmul :: "double \<Rightarrow> double \<Rightarrow> double" where
  "dmul a b = roundToDouble (fst a * fst b) (snd a * snd b)"

definition dadd :: "double \<Rightarrow> double \<Rightarrow> double" where
  "dadd a b = roundToDouble (fst a * snd b + fst b * snd a) (snd a * snd b)"

definition ddiv :: "double \<Rightarrow> double \<Rightarrow> double" where
  "ddiv a b = roundToDouble (fst a * snd b) (snd a * fst b)"

text \<open>\<^verbatim>\<open>x.toFixed(4)\<close> writes the multiple of 1/10000 nearest to the exact value of
  \<open>x\<close>, the larger one in a tie; \<open>toFixed4 x\<close> is that number of ten-thousandths.\<close>

definition toFixed4 :: "double \<Rightarrow> nat" where
  "toFixed4 x = (2 * fst x * 10000 + snd x) div (2 * snd x)"

text \<open>\<^verbatim>\<open>calculateCosts\<close>: \<^verbatim>\<open>0.03 / 1000\<close>, \<^verbatim>\<open>0.06 / 1000\<close> and \<^verbatim>\<open>0.040\<close>, half of the tokens
  at each of the two prices, and \<^verbatim>\<open>Number((textCost + imageCost).toFixed(4))\<close>. The total
  is kept as the decimal number with four places that the JSON of the row shows.\<close>

definition gpt4InputCost :: double where
  "gpt4InputCost = ddiv (roundToDouble 3 100) (roundToDouble 1000 1)"

definition gpt4OutputCost :: double where
  "gpt4OutputCost = ddiv (roundToDouble 6 100) (roundToDouble 1000 1)"

definition dalleE3Cost :: double where
  "dalleE3Cost = roundToDouble 40 1000"

definition textCost :: "nat \<Rightarrow> double" where
  "textCost textTokens =
     dadd (dmul (ddiv (roundToDouble textTokens 1) (roundToDouble 2 1)) gpt4InputCost)
          (dmul (ddiv (roundToDouble textTokens 1) (roundToDouble 2 1)) gpt4OutputCost)"

definition imageCost :: "nat \<Rightarrow> double" where
  "imageCost imageGenerations = dmul (roundToDouble imageGenerations 1) dalleE3Cost"

definition calculateCosts :: "nat \<Rightarrow> nat \<Rightarrow> AICosts" where
  "calculateCosts textTokens imageGenerations =
     \<lparr>text_tokens = textTokens, image_generations = imageGenerations,
      total_cost_usd =
        of_nat (toFixed4 (dadd (textCost textTokens) (imageCost imageGenerations))) / 10000\<rparr>"

record GeneratedCard =
  gc_title :: string
  gc_content :: CardContent
  gc_costs :: AICosts

definition moderatedText :: "TextContent \<Rightarrow> string" where
  "moderatedText textContent = join '' '' (map rs_description (tc_scenes textContent))"

text \<open>\<^verbatim>\<open>generateCardContent\<close>: text, moderation, images, costs. Its \<^verbatim>\<open>catch\<close> throws a new
  error with the message of the one caught. The result is the calls issued and either
  that message or the card.\<close>

definition generateCardContent ::
  "env \<Rightarrow> string \<Rightarrow> CardType \<Rightarrow> GenerationParams \<Rightarrow> api_call list \<times> (string + GeneratedCard)" where
  "generateCardContent e prompt cardType params =
     (case generateTextContent e prompt cardType params of
        Inl m \<Rightarrow> ([ChatCompletion prompt cardType], Inl m)
      | Inr textContent \<Rightarrow>
          let textTokens = (case tc_usage textContent of None \<Rightarrow> 0 | Some n \<Rightarrow> n)
          in (case moderateContent e (moderatedText textContent) of
                Inl m \<Rightarrow>
                  ([ChatCompletion prompt cardType, Moderation (moderatedText textContent)],
                   Inl m)
              | Inr _ \<Rightarrow>
                  let (calls, scenes) = generateSceneImages e params 0 (tc_scenes textContent);
                      imageGenerations = length scenes;
                      costs = calculateCosts textTokens imageGenerations
                  in ([ChatCompletion prompt cardType, Moderation (moderatedText textContent)]
                        @ calls,
                      Inr \<lparr>gc_title = tc_title textContent,
                           gc_content =
                             \<lparr>primary_word = tc_primary_word textContent, scenes = scenes,
                              category_words = tc_category_words textContent,
                              layout = \<lparr>layout_format = ''3:4'',
                                        layout_orientation = ''portrait'',
                                        layout_theme = ''colorful''\<rparr>\<rparr>,
                           gc_costs = costs\<rparr>)))"

section \<open>The background generation\<close>

text \<open>The three updates of a session, and \<^verbatim>\<open>update(...).eq('id', sessionId)\<close>, which
  changes every row with that identifier when it is applied.\<close>

definition markProcessing :: "GenerationSession \<Rightarrow> GenerationSession" where
  "markProcessing s = s\<lparr>gs_status := Processing\<rparr>"

definition markCompleted :: "AICosts \<Rightarrow> timestamp \<Rightarrow> GenerationSession \<Rightarrow> GenerationSession" where
  "markCompleted costs now s =
     s\<lparr>gs_status := Completed, gs_ai_costs := costs, gs_completed_at := Some now\<rparr>"

definition markFailed :: "string \<Rightarrow> timestamp \<Rightarrow> GenerationSession \<Rightarrow> GenerationSession" where
  "markFailed m now s =
     s\<lparr>gs_status := Failed, gs_error_message := Some m, gs_completed_at := Some now\<rparr>"

definition updateSession ::
  "bool \<Rightarrow> string \<Rightarrow> (GenerationSession \<Rightarrow> GenerationSession) \<Rightarrow> world \<Rightarrow> world" where
  "updateSession applied sessionId f w =
     (if applied
      then w\<lparr>generation_sessions :=
               map (\<lambda>s. if gs_id s = sessionId then f s else s) (generation_sessions w)\<rparr>
      else w)"

text \<open>The insert of the card: the columns it gives; \<^verbatim>\<open>created_at\<close> and \<^verbatim>\<open>updated_at\<close>
  have the default \<^verbatim>\<open>NOW()\<close> of the table.\<close>

definition newCard ::
  "string \<Rightarrow> string \<Rightarrow> string \<Rightarrow> GenerateBody \<Rightarrow> GeneratedCard \<Rightarrow> timestamp \<Rightarrow> FlashCard" where
  "newCard cid userId sessionId body cardContent now =
     \<lparr>fc_id = cid, fc_user_id = userId, fc_session_id = sessionId,
      fc_title = gc_title cardContent, fc_card_type = card_type body,
      fc_content = gc_content cardContent, fc_generation_params = generation_params body,
      fc_status = Preview, fc_created_at = now, fc_updated_at = now\<rparr>"

definition insertCard ::
  "env \<Rightarrow> world \<Rightarrow> string \<Rightarrow> string \<Rightarrow> GenerateBody \<Rightarrow> GeneratedCard \<Rightarrow> timestamp
     \<Rightarrow> string + (world \<times> FlashCard)" where
  "insertCard e w userId sessionId body cardContent now =
     (case card_insert e of
        Inl err \<Rightarrow> Inl err
      | Inr cid \<Rightarrow>
          if cid \<in> set (map fc_id (flash_cards w))
          then Inl ''duplicate key value violates unique constraint''
          else Inr (w\<lparr>flash_cards :=
                        flash_cards w @ [newCard cid userId sessionId body cardContent now]\<rparr>,
                    newCard cid userId sessionId body cardContent now))"

text \<open>The rows of \<^verbatim>\<open>card_scenes\<close>: \<^verbatim>\<open>scene_order\<close> is the index plus one.\<close>

fun sceneData :: "string \<Rightarrow> nat \<Rightarrow> Scene list \<Rightarrow> CardScene list" where
  "sceneData cardId index [] = []"
| "sceneData cardId index (scene # rest) =
     \<lparr>cs_card_id = cardId, cs_scene_order = index + 1, cs_description = description scene,
      cs_image_url = image_url scene, cs_image_prompt = image_prompt scene\<rparr>
       # sceneData cardId (Suc index) rest"

definition insertScenes :: "env \<Rightarrow> string \<Rightarrow> Scene list \<Rightarrow> world \<Rightarrow> world" where
  "insertScenes e cardId scs w =
     (if scs \<noteq> [] \<and> store_ok e InsertScenes
      then w\<lparr>card_scenes := card_scenes w @ sceneData cardId 0 scs\<rparr>
      else w)"

text \<open>\<^verbatim>\<open>updateUserUsage\<close>: an upsert on \<^verbatim>\<open>(user_id, period_start)\<close>; an error of the
  upsert is logged and an exception is swallowed.\<close>

definition upsertUsage :: "UsageRow \<Rightarrow> UsageRow list \<Rightarrow> UsageRow list" where
  "upsertUsage r rows =
     (if \<exists>x \<in> set rows. ut_user_id x = ut_user_id r \<and> ut_period_start x = ut_period_start r
      then map (\<lambda>x. if ut_user_id x = ut_user_id r \<and> ut_period_start x = ut_period_start r
                     then r else x) rows
      else rows @ [r])"

definition updateUserUsage :: "env \<Rightarrow> string \<Rightarrow> AICosts \<Rightarrow> timestamp \<Rightarrow> world \<Rightarrow> world" where
  "updateUserUsage e userId costs now w =
     (if usage_throws e \<or> \<not> store_ok e UpsertUsage then w
      else w\<lparr>usage_tracking :=
               upsertUsage \<lparr>ut_user_id = userId, ut_period_start = today now,
                            ut_period_end = today now, ut_cards_generated = 1,
                            ut_total_ai_cost = total_cost_usd costs\<rparr>
                 (usage_tracking w)\<rparr>)"

text \<open>The \<^verbatim>\<open>catch\<close> block of \<^verbatim>\<open>generateCardAsync\<close>: the session is updated and the error
  is thrown again.\<close>

definition failSession :: "env \<Rightarrow> string \<Rightarrow> string \<Rightarrow> timestamp \<Rightarrow> world \<Rightarrow> world \<times> string option" where
  "failSession e sessionId m now w =
     (updateSession (store_ok e UpdateFailed) sessionId (markFailed m now) w, Some m)"

text \<open>\<^verbatim>\<open>generateCardAsync\<close>. The result is the world it leaves and the message of the
  error it rejects with, if it does. \<open>now\<close> is the clock of the run. The service is
  constructed before the \<^verbatim>\<open>try\<close> block: when its constructor throws, no update is made.\<close>

definition generateCardAsync ::
  "env \<Rightarrow> world \<Rightarrow> string \<Rightarrow> GenerateBody \<Rightarrow> string \<Rightarrow> timestamp \<Rightarrow> world \<times> string option" where
  "generateCardAsync e w sessionId body userId now =
     (case newOpenAIService e of
        Inl m \<Rightarrow> (w, Some m)
      | Inr openai \<Rightarrow>
          let w1 = updateSession (store_ok e UpdateProcessing) sessionId markProcessing w;
              (calls, generated) =
                generateCardContent e (input_prompt body) (card_type body)
                  (generation_params body);
              w2 = w1\<lparr>api_log := api_log w1 @ calls\<rparr>
          in case generated of
               Inl m \<Rightarrow> failSession e sessionId m now w2
             | Inr cardContent \<Rightarrow>
                 (case insertCard e w2 userId sessionId body cardContent now of
                    Inl err \<Rightarrow>
                      failSession e sessionId (''Failed to save card: '' @ err) now w2
                  | Inr (w3, saved) \<Rightarrow>
                      let w4 = insertScenes e (fc_id saved) (scenes (gc_content cardContent)) w3;
                          w5 = updateSession (store_ok e UpdateCompleted) sessionId
                                 (markCompleted (gc_costs cardContent) now) w4;
                          w6 = updateUserUsage e userId (gc_costs cardContent) now w5
                      in (w6, None)))"

text \<open>The \<^verbatim>\<open>.catch\<close> that \<^verbatim>\<open>POST\<close> attaches to the background promise.\<close>

definition onBackgroundFailure :: "env \<Rightarrow> string \<Rightarrow> string \<Rightarrow> timestamp \<Rightarrow> world \<Rightarrow> world" where
  "onBackgroundFailure e sessionId m now w =
     updateSession (store_ok e HandlerUpdateFailed) sessionId (markFailed m now) w"

definition runBackground ::
  "env \<Rightarrow> world \<Rightarrow> string \<Rightarrow> GenerateBody \<Rightarrow> string \<Rightarrow> timestamp \<Rightarrow> timestamp \<Rightarrow> world" where
  "runBackground e w sessionId body userId now later =
     (case generateCardAsync e w sessionId body userId now of
        (w', None) \<Rightarrow> w'
      | (w', Some m) \<Rightarrow> onBackgroundFailure e sessionId m later w')"

text \<open>A whole request: the route, then the background generation it started, run to its
  end.\<close>

definition generateRequest ::
  "env \<Rightarrow> world \<Rightarrow> GenerateBody request \<Rightarrow> timestamp \<Rightarrow> timestamp \<Rightarrow> timestamp
     \<Rightarrow> world \<times> (error_response + GenerationSession)" where
  "generateRequest e w req now finished later =
     (case POST e w req now of
        (w1, Inl err) \<Rightarrow> (w1, Inl err)
      | (w1, Inr session) \<Rightarrow>
          (case validateRequest GenerateCardSchema req of
             Inl x \<Rightarrow> (w1, Inr session)
           | Inr (body, user) \<Rightarrow>
               (runBackground e w1 (gs_id session) body user finished later, Inr session)))"

section \<open>The status route and the card repository\<close>

record SessionResponse =
  sr_session :: GenerationSession
  sr_cards :: "(FlashCard \<times> CardScene list) list"

text \<open>\<^verbatim>\<open>GET\<close>: the session with that identifier and that owner, with its cards and their
  scenes; its schema is \<^verbatim>\<open>z.any()\<close>.\<close>

definition sessionCards :: "world \<Rightarrow> string \<Rightarrow> (FlashCard \<times> CardScene list) list" where
  "sessionCards w sessionId =
     map (\<lambda>c. (c, filter (\<lambda>sc. cs_card_id sc = fc_id c) (card_scenes w)))
       (filter (\<lambda>c. fc_session_id c = sessionId) (flash_cards w))"

definition GET :: "world \<Rightarrow> unit request \<Rightarrow> string \<Rightarrow> error_response + SessionResponse" where
  "GET w req sessionId =
     (case validateRequest (\<lambda>_. True) req of
        Inl x \<Rightarrow> Inl (handleAPIError x)
      | Inr (_, user) \<Rightarrow>
          (case single (filter (\<lambda>s. gs_id s = sessionId \<and> gs_user_id s = user)
                          (generation_sessions w)) of
             None \<Rightarrow>
               Inl \<lparr>err_code = ''NOT_FOUND'', err_message = ''Session not found'',
                    err_status = 404\<rparr>
           | Some session \<Rightarrow>
               Inr \<lparr>sr_session = session, sr_cards = sessionCards w sessionId\<rparr>))"

text \<open>\<^verbatim>\<open>CardRepository.approveCard\<close>: the update has no condition on the status. The
  trigger \<^verbatim>\<open>handle_cards_updated_at\<close> of the table runs before the update of each row and
  sets \<^verbatim>\<open>updated_at\<close> to \<^verbatim>\<open>NOW()\<close>, here the clock \<open>now\<close> of the call; \<^verbatim>\<open>.select()\<close>
  returns the row as it is stored. With \<^verbatim>\<open>.single()\<close> a request that does not change
  exactly one row is an error, and changes nothing.\<close>

definition setApproved :: "timestamp \<Rightarrow> FlashCard \<Rightarrow> FlashCard" where
  "setApproved now c = c\<lparr>fc_status := Approved, fc_updated_at := now\<rparr>"

definition approveCard ::
  "world \<Rightarrow> string \<Rightarrow> string \<Rightarrow> timestamp \<Rightarrow> world \<times> (string + FlashCard)" where
  "approveCard w cardId userId now =
     (case single (filter (\<lambda>c. fc_id c = cardId \<and> fc_user_id c = userId) (flash_cards w)) of
        None \<Rightarrow> (w, Inl ''Failed to approve card: JSON object requested, multiple (or no) rows returned'')
      | Some found \<Rightarrow>
          (w\<lparr>flash_cards :=
               map (\<lambda>c. if fc_id c = cardId \<and> fc_user_id c = userId
                         then setApproved now c else c) (flash_cards w)\<rparr>,
           Inr (setApproved now found)))"

section \<open>Properties and examples\<close>

text \<open>The invariant of a session: \<^verbatim>\<open>completed_at\<close> is set exactly in the two final
  states.\<close>

definition completedAtInvariant :: "GenerationSession \<Rightarrow> bool" where
  "completedAtInvariant s \<longleftrightarrow>
     (gs_completed_at s \<noteq> None) = (gs_status s = Completed \<or> gs_status s = Failed)"

text \<open>The number of completion calls in a log: one for each run of the text generator.\<close>

definition chatCalls :: "api_call list \<Rightarrow> nat" where
  "chatCalls l = length (filter (\<lambda>c. case c of ChatCompletion _ _ \<Rightarrow> True | _ \<Rightarrow> False) l)"

text \<open>What \<^verbatim>\<open>generateCardContent\<close> returns once the text is parsed and the moderation has
  passed.\<close>

definition contentOf :: "env \<Rightarrow> GenerationParams \<Rightarrow> TextContent \<Rightarrow> GeneratedCard" where
  "contentOf e params tc =
     \<lparr>gc_title = tc_title tc,
      gc_content =
        \<lparr>primary_word = tc_primary_word tc,
         scenes = snd (generateSceneImages e params 0 (tc_scenes tc)),
         category_words = tc_category_words tc,
         layout = \<lparr>layout_format = ''3:4'', layout_orientation = ''portrait'',
                   layout_theme = ''colorful''\<rparr>\<rparr>,
      gc_costs = calculateCosts (case tc_usage tc of None \<Rightarrow> 0 | Some n \<Rightarrow> n)
                   (length (tc_scenes tc))\<rparr>"

text \<open>A request of user \<^verbatim>\<open>u1\<close> for the word elephant. The text generator answers with two
  scenes; the first image call succeeds and the second one fails.\<close>

definition demoParams :: GenerationParams where
  "demoParams = \<lparr>difficulty_level = Beginner, age_group = Elementary,
                 style_preference = Cartoon, language = ''en''\<rparr>"

definition demoBody :: GenerateBody where
  "demoBody = \<lparr>input_prompt = ''elephant'', card_type = SingleWord,
               generation_params = demoParams\<rparr>"

definition demoRequest :: "GenerateBody request" where
  "demoRequest = \<lparr>req_body = Some demoBody, req_user = Some ''u1''\<rparr>"

definition demoText :: TextContent where
  "demoText =
     \<lparr>tc_title = ''Elephant'', tc_primary_word = ''elephant'', tc_category_words = None,
      tc_scenes = [\<lparr>rs_id = ''scene_1'', rs_description = ''zoo'', rs_image_prompt = ''p1''\<rparr>,
                   \<lparr>rs_id = ''scene_2'', rs_description = ''river'', rs_image_prompt = ''p2''\<rparr>],
      tc_usage = Some 1000\<rparr>"

definition demoEnv :: env where
  "demoEnv =
     \<lparr>openai_api_key = True,
      chat_api = (\<lambda>_ _ _. ChatParsed demoText),
      moderation_api = (\<lambda>_. ModerationResults [\<lparr>flagged = False, categories = []\<rparr>]),
      image_api = (\<lambda>i _. if i = 0 then ImageData [Some ''img1''] else ImageThrows ''busy''),
      user_lookup = LookupOk, count_lookup = LookupOk,
      session_insert = Inr ''s1'', card_insert = Inr ''c1'',
      usage_throws = False, store_ok = (\<lambda>_. True)\<rparr>"

definition demoWorld :: world where
  "demoWorld =
     \<lparr>users = [\<lparr>u_id = ''u1'', u_subscription_tier = Some ''free''\<rparr>,
               \<lparr>u_id = ''u2'', u_subscription_tier = Some ''enterprise''\<rparr>],
      generation_sessions = [], flash_cards = [], card_scenes = [], usage_tracking = [],
      api_log = []\<rparr>"

text \<open>Variants: the card insert fails; the moderation flags the text; the count query
  throws.\<close>

definition brokenStoreEnv :: env where
  "brokenStoreEnv = demoEnv\<lparr>card_insert := Inl ''connection lost''\<rparr>"

definition flaggedEnv :: env where
  "flaggedEnv =
     demoEnv\<lparr>moderation_api :=
               (\<lambda>_. ModerationResults
                      [\<lparr>flagged = True,
                        categories = [(''violence'', True), (''sexual'', False),
                                      (''hate'', True)]\<rparr>])\<rparr>"

definition throwingCountEnv :: env where
  "throwingCountEnv = demoEnv\<lparr>count_lookup := LookupThrows\<rparr>"

text \<open>Worlds: the session of the request is stored; an older session is completed; user
  \<^verbatim>\<open>u1\<close> has five, or four, sessions on the day of the call; a card has been downloaded.\<close>

definition pendingWorld :: world where
  "pendingWorld =
     demoWorld\<lparr>generation_sessions := [newSession ''s1'' ''u1'' demoBody 1000]\<rparr>"

definition historyWorld :: world where
  "historyWorld =
     demoWorld\<lparr>generation_sessions :=
                 [markCompleted zeroCosts 500 (newSession ''s0'' ''u1'' demoBody 100)]\<rparr>"

definition sessionsOf :: "string \<Rightarrow> string list \<Rightarrow> GenerationSession list" where
  "sessionsOf user ids = map (\<lambda>sid. newSession sid user demoBody 100) ids"

definition quotaWorld :: world where
  "quotaWorld =
     demoWorld\<lparr>generation_sessions := sessionsOf ''u1'' [''a'', ''b'', ''c'', ''d'', ''e'']\<rparr>"

definition almostWorld :: world where
  "almostWorld =
     demoWorld\<lparr>generation_sessions := sessionsOf ''u1'' [''a'', ''b'', ''c'', ''d'']\<rparr>"

text \<open>The calendar day (UTC) of an instant, and the sessions that a user created during
  the calendar day of an instant: the count that the daily limit is about.\<close>

definition calendarDay :: "timestamp \<Rightarrow> nat" where
  "calendarDay t = t div 86400000"

definition createdOnDay :: "world \<Rightarrow> string \<Rightarrow> timestamp \<Rightarrow> GenerationSession list" where
  "createdOnDay w userId now =
     filter (\<lambda>s. gs_user_id s = userId \<and> calendarDay (gs_created_at s) = calendarDay now)
       (generation_sessions w)"

text \<open>User \<^verbatim>\<open>u1\<close> has five sessions on the first day, the fifth one created at
  23:59:59.999.\<close>

definition lateWorld :: world where
  "lateWorld =
     demoWorld\<lparr>generation_sessions :=
                 sessionsOf ''u1'' [''a'', ''b'', ''c'', ''d'']
                   @ [newSession ''e'' ''u1'' demoBody 86399999]\<rparr>"

definition demoCard :: "CardStatus \<Rightarrow> FlashCard" where
  "demoCard st =
     \<lparr>fc_id = ''c1'', fc_user_id = ''u1'', fc_session_id = ''s1'', fc_title = ''Elephant'',
      fc_card_type = SingleWord,
      fc_content = \<lparr>primary_word = ''elephant'', scenes = [], category_words = None,
                    layout = \<lparr>layout_format = ''3:4'', layout_orientation = ''portrait'',
                              layout_theme = ''colorful''\<rparr>\<rparr>,
      fc_generation_params = demoParams, fc_status = st,
      fc_created_at = 1000, fc_updated_at = 1000\<rparr>"

definition downloadedWorld :: world where
  "downloadedWorld = demoWorld\<lparr>flash_cards := [demoCard Downloaded]\<rparr>"

definition approvedWorld :: world where
  "approvedWorld = demoWorld\<lparr>flash_cards := [demoCard Approved]\<rparr>"

definition otherRequest :: "unit request" where
  "otherRequest = \<lparr>req_body = Some (), req_user = Some ''u2''\<rparr>"

text \<open>The status request as the client and the manual test of the guide send it: a
  \<^verbatim>\<open>GET\<close> with the session cookie of the user and no body.\<close>

definition statusRequest :: "string \<Rightarrow> unit request" where
  "statusRequest user = \<lparr>req_body = None, req_user = Some user\<rparr>"

lemmas example_defs =
  demoParams_def demoBody_def demoRequest_def demoText_def demoEnv_def demoWorld_def
  brokenStoreEnv_def historyWorld_def flaggedEnv_def zeroCosts_def
  throwingCountEnv_def pendingWorld_def sessionsOf_def quotaWorld_def almostWorld_def
  demoCard_def downloadedWorld_def approvedWorld_def otherRequest_def lateWorld_def
  statusRequest_def

lemmas route_defs =
  generateRequest_def POST_def validateRequest_def GenerateCardSchema_def checkUserQuota_def
  userTier_def quotaLimits_def sessionsToday_def today_def dayStart_def dayEnd_def msPerDay_def
  insertSession_def newSession_def QuotaExceededError_def quotaMessage_def

lemmas background_defs =
  runBackground_def onBackgroundFailure_def generateCardAsync_def newOpenAIService_def
  failSession_def
  generateCardContent_def generateTextContent_def moderateContent_def policyViolation_def
  moderatedText_def enhancedPrompt_def imageStyle_def generatedScene_def calculateCosts_def
  updateSession_def markProcessing_def markCompleted_def markFailed_def insertCard_def
  newCard_def insertScenes_def updateUserUsage_def upsertUsage_def

lemmas eval_defs = example_defs route_defs background_defs

section \<open>The tables after each step\<close>

lemma sessions_updateSession:
  "generation_sessions (updateSession b sid f w) =
     (if b then map (\<lambda>s. if gs_id s = sid then f s else s) (generation_sessions w)
      else generation_sessions w)"
  by (simp add: updateSession_def)

lemma sessions_insertScenes [simp]:
  "generation_sessions (insertScenes e c scs w) = generation_sessions w"
  by (simp add: insertScenes_def)

lemma sessions_updateUserUsage [simp]:
  "generation_sessions (updateUserUsage e u c t w) = generation_sessions w"
  by (simp add: updateUserUsage_def)

lemma api_log_updateSession [simp]:
  "api_log (updateSession b sid f w) = api_log w"
  by (simp add: updateSession_def)

lemma api_log_insertScenes [simp]: "api_log (insertScenes e c scs w) = api_log w"
  by (simp add: insertScenes_def)

lemma api_log_updateUserUsage [simp]: "api_log (updateUserUsage e u c t w) = api_log w"
  by (simp add: updateUserUsage_def)

lemma flash_cards_updateSession [simp]:
  "flash_cards (updateSession b sid f w) = flash_cards w"
  by (simp add: updateSession_def)

lemma flash_cards_insertScenes [simp]: "flash_cards (insertScenes e c scs w) = flash_cards w"
  by (simp add: insertScenes_def)

lemma flash_cards_updateUserUsage [simp]: "flash_cards (updateUserUsage e u c t w) = flash_cards w"
  by (simp add: updateUserUsage_def)

lemma card_scenes_updateSession [simp]: "card_scenes (updateSession b sid f w) = card_scenes w"
  by (simp add: updateSession_def)

lemma card_scenes_updateUserUsage [simp]: "card_scenes (updateUserUsage e u c t w) = card_scenes w"
  by (simp add: updateUserUsage_def)

lemma card_scenes_insertScenes:
  "store_ok e InsertScenes \<Longrightarrow>
     card_scenes (insertScenes e c scs w) = card_scenes w @ sceneData c 0 scs"
  by (cases scs) (simp_all add: insertScenes_def)

lemma insertCard_Inr:
  assumes "insertCard e w u sid body gc t = Inr (w', c)"
  shows "\<exists>cid. card_insert e = Inr cid \<and> cid \<notin> set (map fc_id (flash_cards w))
           \<and> c = newCard cid u sid body gc t \<and> w' = w\<lparr>flash_cards := flash_cards w @ [c]\<rparr>"
  using assms by (auto simp: insertCard_def split: sum.splits if_splits)

lemma sessions_insertCard:
  "insertCard e w u sid body gc t = Inr (w', c) \<Longrightarrow> generation_sessions w' = generation_sessions w"
  by (auto dest: insertCard_Inr)

lemma updateSession_row:
  assumes "s \<in> set (generation_sessions (updateSession b sid f w))"
  obtains s0 where "s0 \<in> set (generation_sessions w)"
    and "s = (if b \<and> gs_id s0 = sid then f s0 else s0)"
  using assms by (cases b) (auto simp: sessions_updateSession)

lemma single_Some: "single xs = Some x \<longleftrightarrow> xs = [x]"
  by (cases xs rule: single.cases) simp_all

section \<open>The image loop and the generated content\<close>

lemma generateSceneImages_calls:
  "fst (generateSceneImages e params i scs) =
     map (\<lambda>sc. ImageGenerate (enhancedPrompt sc params) (imageStyle params)) scs"
  by (induction scs arbitrary: i) (simp_all add: split_beta Let_def)

lemma generateSceneImages_length:
  "length (snd (generateSceneImages e params i scs)) = length scs"
  by (induction scs arbitrary: i) (simp_all add: split_beta Let_def)

lemma generateSceneImages_nth:
  "k < length scs \<Longrightarrow>
     snd (generateSceneImages e params i scs) ! k =
       generatedScene (scs ! k)
         (case imageUrl (image_api e (i + k) (enhancedPrompt (scs ! k) params)) of
            Some url \<Rightarrow> url | None \<Rightarrow> [])"
proof (induction scs arbitrary: i k)
  case Nil
  then show ?case by simp
next
  case (Cons sc scs)
  show ?case
  proof (cases k)
    case 0
    then show ?thesis by (simp add: split_beta Let_def split: option.splits)
  next
    case (Suc j)
    with Cons.prems have "j < length scs" by simp
    from Cons.IH[OF this, of "Suc i"] Suc show ?thesis
      by (simp add: split_beta Let_def)
  qed
qed

lemma generateCardContent_parsed:
  assumes "chat_api e prompt cardType params = ChatParsed tc"
    and "moderateContent e (moderatedText tc) = Inr ()"
  shows "generateCardContent e prompt cardType params =
           ([ChatCompletion prompt cardType, Moderation (moderatedText tc)]
              @ map (\<lambda>sc. ImageGenerate (enhancedPrompt sc params) (imageStyle params))
                  (tc_scenes tc),
            Inr (contentOf e params tc))"
  using assms
  by (simp add: generateCardContent_def generateTextContent_def split_beta Let_def
        generateSceneImages_calls generateSceneImages_length contentOf_def)

lemma generateCardContent_flagged:
  assumes "chat_api e prompt cardType params = ChatParsed tc"
    and "moderateContent e (moderatedText tc) = Inl m"
  shows "generateCardContent e prompt cardType params =
           ([ChatCompletion prompt cardType, Moderation (moderatedText tc)], Inl m)"
  using assms
  by (simp add: generateCardContent_def generateTextContent_def)

lemma generateCardContent_no_text:
  assumes "generateTextContent e prompt cardType params = Inl m"
  shows "generateCardContent e prompt cardType params = ([ChatCompletion prompt cardType], Inl m)"
  using assms by (simp add: generateCardContent_def)

lemma chatCalls_Nil [simp]: "chatCalls [] = 0"
  by (simp add: chatCalls_def)

lemma chatCalls_append [simp]: "chatCalls (xs @ ys) = chatCalls xs + chatCalls ys"
  by (simp add: chatCalls_def)

lemma chatCalls_images:
  "chatCalls (fst (generateSceneImages e params i scs)) = 0"
  by (induction scs arbitrary: i) (simp_all add: chatCalls_def split_beta Let_def)

lemma chatCalls_generateCardContent:
  "chatCalls (fst (generateCardContent e prompt cardType params)) = 1"
proof -
  have "chatCalls (fst (generateSceneImages e params 0 scs)) = 0" for scs
    by (rule chatCalls_images)
  then show ?thesis
    by (simp add: generateCardContent_def split_beta Let_def chatCalls_def split: sum.splits)
qed

section \<open>The ways the background generation ends\<close>

text \<open>The service cannot be constructed, the content fails (text or moderation), the
  card insert fails, or the run completes.\<close>

lemma generateCardAsync_no_service:
  assumes "\<not> openai_api_key e"
  shows "generateCardAsync e w sid body u t =
           (w, Some ''OPENAI_API_KEY environment variable is required'')"
  using assms by (simp add: generateCardAsync_def newOpenAIService_def)

lemma generateCardAsync_content_fails:
  assumes "generateCardContent e (input_prompt body) (card_type body) (generation_params body)
             = (calls, Inl m)"
    and "openai_api_key e"
  shows "generateCardAsync e w sid body u t =
           (updateSession (store_ok e UpdateFailed) sid (markFailed m t)
              ((updateSession (store_ok e UpdateProcessing) sid markProcessing w)
                 \<lparr>api_log := api_log w @ calls\<rparr>), Some m)"
  using assms by (simp add: generateCardAsync_def newOpenAIService_def failSession_def Let_def)

lemma generateCardAsync_card_fails:
  assumes "generateCardContent e (input_prompt body) (card_type body) (generation_params body)
             = (calls, Inr gc)"
    and "insertCard e ((updateSession (store_ok e UpdateProcessing) sid markProcessing w)
                 \<lparr>api_log := api_log w @ calls\<rparr>) u sid body gc t = Inl err"
    and "openai_api_key e"
  shows "generateCardAsync e w sid body u t =
           (updateSession (store_ok e UpdateFailed) sid
              (markFailed (''Failed to save card: '' @ err) t)
              ((updateSession (store_ok e UpdateProcessing) sid markProcessing w)
                 \<lparr>api_log := api_log w @ calls\<rparr>), Some (''Failed to save card: '' @ err))"
  using assms by (simp add: generateCardAsync_def newOpenAIService_def failSession_def Let_def)

lemma generateCardAsync_completes:
  assumes "generateCardContent e (input_prompt body) (card_type body) (generation_params body)
             = (calls, Inr gc)"
    and "insertCard e ((updateSession (store_ok e UpdateProcessing) sid markProcessing w)
                 \<lparr>api_log := api_log w @ calls\<rparr>) u sid body gc t = Inr (w3, c)"
    and "openai_api_key e"
  shows "generateCardAsync e w sid body u t =
           (updateUserUsage e u (gc_costs gc) t
              (updateSession (store_ok e UpdateCompleted) sid (markCompleted (gc_costs gc) t)
                 (insertScenes e (fc_id c) (scenes (gc_content gc)) w3)), None)"
  using assms by (simp add: generateCardAsync_def newOpenAIService_def failSession_def Let_def)

lemma generateCardAsync_outcome:
  obtains
    (no_service) "\<not> openai_api_key e"
  | (content_fails) calls m where
      "generateCardContent e (input_prompt body) (card_type body) (generation_params body)
         = (calls, Inl m)"
      "openai_api_key e"
  | (card_fails) calls gc err where
      "generateCardContent e (input_prompt body) (card_type body) (generation_params body)
         = (calls, Inr gc)"
      "insertCard e ((updateSession (store_ok e UpdateProcessing) sid markProcessing w)
                 \<lparr>api_log := api_log w @ calls\<rparr>) u sid body gc t = Inl err"
      "openai_api_key e"
  | (completes) calls gc w3 c where
      "generateCardContent e (input_prompt body) (card_type body) (generation_params body)
         = (calls, Inr gc)"
      "insertCard e ((updateSession (store_ok e UpdateProcessing) sid markProcessing w)
                 \<lparr>api_log := api_log w @ calls\<rparr>) u sid body gc t = Inr (w3, c)"
      "openai_api_key e"
proof (cases "openai_api_key e")
  case False
  with no_service show thesis .
next
  case key: True
  obtain calls generated where g:
    "generateCardContent e (input_prompt body) (card_type body) (generation_params body)
       = (calls, generated)"
    by (cases "generateCardContent e (input_prompt body) (card_type body) (generation_params body)")
  show thesis
  proof (cases generated)
    case (Inl m)
    with g key content_fails show thesis by blast
  next
    case (Inr gc)
    show thesis
    proof (cases "insertCard e ((updateSession (store_ok e UpdateProcessing) sid markProcessing w)
                 \<lparr>api_log := api_log w @ calls\<rparr>) u sid body gc t")
      case (Inl err)
      with g key \<open>generated = Inr gc\<close> card_fails show thesis by blast
    next
      case (Inr p)
      obtain w3 c where "p = (w3, c)" by (cases p)
      with g key \<open>generated = Inr gc\<close> Inr completes show thesis by blast
    qed
  qed
qed

lemma generateCardAsync_success:
  assumes chat: "chat_api e (input_prompt body) (card_type body) (generation_params body)
                   = ChatParsed tc"
    and moderated: "moderateContent e (moderatedText tc) = Inr ()"
    and card: "card_insert e = Inr cid"
    and fresh: "cid \<notin> set (map fc_id (flash_cards w))"
    and key: "openai_api_key e"
  shows "generateCardAsync e w sid body u t =
     (updateUserUsage e u (gc_costs (contentOf e (generation_params body) tc)) t
        (updateSession (store_ok e UpdateCompleted) sid
           (markCompleted (gc_costs (contentOf e (generation_params body) tc)) t)
           (insertScenes e cid (scenes (gc_content (contentOf e (generation_params body) tc)))
              ((updateSession (store_ok e UpdateProcessing) sid markProcessing w)
                 \<lparr>api_log := api_log w @
                      [ChatCompletion (input_prompt body) (card_type body),
                       Moderation (moderatedText tc)]
                      @ map (\<lambda>sc. ImageGenerate (enhancedPrompt sc (generation_params body))
                                    (imageStyle (generation_params body))) (tc_scenes tc),
                   flash_cards := flash_cards w @
                      [newCard cid u sid body (contentOf e (generation_params body) tc) t]\<rparr>))),
      None)"
proof -
  let ?gc = "contentOf e (generation_params body) tc"
  let ?calls = "[ChatCompletion (input_prompt body) (card_type body),
                       Moderation (moderatedText tc)]
                      @ map (\<lambda>sc. ImageGenerate (enhancedPrompt sc (generation_params body))
                                    (imageStyle (generation_params body))) (tc_scenes tc)"
  let ?w2 = "(updateSession (store_ok e UpdateProcessing) sid markProcessing w)
                 \<lparr>api_log := api_log w @ ?calls\<rparr>"
  have g: "generateCardContent e (input_prompt body) (card_type body) (generation_params body)
             = (?calls, Inr ?gc)"
    using chat moderated by (rule generateCardContent_parsed)
  have f: "flash_cards ?w2 = flash_cards w" by (simp add: updateSession_def)
  have i: "insertCard e ?w2 u sid body ?gc t =
             Inr (?w2\<lparr>flash_cards := flash_cards w @ [newCard cid u sid body ?gc t]\<rparr>,
                  newCard cid u sid body ?gc t)"
    using card fresh by (simp add: insertCard_def f del: append.simps)
  have n: "fc_id (newCard cid u sid body ?gc t) = cid" by (simp add: newCard_def)
  show ?thesis
    unfolding generateCardAsync_completes[OF g i key] n by simp
qed

lemma sessions_generateCardAsync:
  "(\<exists>b c. generation_sessions (fst (generateCardAsync e w sid body u t)) =
       generation_sessions
         (updateSession b sid (markCompleted c t)
            (updateSession (store_ok e UpdateProcessing) sid markProcessing w)))
   \<or> (\<exists>b m. generation_sessions (fst (generateCardAsync e w sid body u t)) =
       generation_sessions
         (updateSession b sid (markFailed m t)
            (updateSession (store_ok e UpdateProcessing) sid markProcessing w)))
   \<or> generation_sessions (fst (generateCardAsync e w sid body u t)) = generation_sessions w"
proof (cases rule: generateCardAsync_outcome[where e=e and body=body and sid=sid and w=w and u=u and t=t])
  case no_service
  then show ?thesis by (simp add: generateCardAsync_no_service)
next
  case (content_fails calls m)
  have "generation_sessions (fst (generateCardAsync e w sid body u t)) =
       generation_sessions
         (updateSession (store_ok e UpdateFailed) sid (markFailed m t)
            (updateSession (store_ok e UpdateProcessing) sid markProcessing w))"
    unfolding generateCardAsync_content_fails[OF content_fails]
    by (simp add: sessions_updateSession)
  then show ?thesis by blast
next
  case (card_fails calls gc err)
  have "generation_sessions (fst (generateCardAsync e w sid body u t)) =
       generation_sessions
         (updateSession (store_ok e UpdateFailed) sid
            (markFailed (''Failed to save card: '' @ err) t)
            (updateSession (store_ok e UpdateProcessing) sid markProcessing w))"
    unfolding generateCardAsync_card_fails[OF card_fails]
    by (simp add: sessions_updateSession)
  then show ?thesis by blast
next
  case (completes calls gc w3 c)
  have "generation_sessions (fst (generateCardAsync e w sid body u t)) =
       generation_sessions
         (updateSession (store_ok e UpdateCompleted) sid (markCompleted (gc_costs gc) t)
            (updateSession (store_ok e UpdateProcessing) sid markProcessing w))"
    unfolding generateCardAsync_completes[OF completes]
    using sessions_insertCard[OF completes(2)]
    by (simp add: sessions_updateSession)
  then show ?thesis by blast
qed

lemma failed_sessions:
  assumes "generateCardAsync e w sid body u t = (w', Some m)"
    and key: "openai_api_key e"
  shows "generation_sessions w' =
           generation_sessions (updateSession (store_ok e UpdateFailed) sid (markFailed m t)
              (updateSession (store_ok e UpdateProcessing) sid markProcessing w))"
proof (cases rule: generateCardAsync_outcome[where e=e and body=body and sid=sid and w=w and u=u and t=t])
  case no_service
  with key show ?thesis by simp
next
  case (content_fails calls m')
  show ?thesis
    using assms(1) unfolding generateCardAsync_content_fails[OF content_fails]
    by (auto simp: sessions_updateSession)
next
  case (card_fails calls gc err)
  show ?thesis
    using assms(1) unfolding generateCardAsync_card_fails[OF card_fails]
    by (auto simp: sessions_updateSession)
next
  case (completes calls gc w3 c)
  show ?thesis
    using assms(1) unfolding generateCardAsync_completes[OF completes] by simp
qed

lemma api_log_generateCardAsync:
  "api_log (fst (generateCardAsync e w sid body u t)) =
     api_log w @ (if openai_api_key e
                  then fst (generateCardContent e (input_prompt body) (card_type body)
                              (generation_params body))
                  else [])"
proof (cases rule: generateCardAsync_outcome[where e=e and body=body and sid=sid and w=w and u=u and t=t])
  case no_service
  then show ?thesis by (simp add: generateCardAsync_no_service)
next
  case (content_fails calls m)
  show ?thesis
    unfolding generateCardAsync_content_fails[OF content_fails] using content_fails by simp
next
  case (card_fails calls gc err)
  show ?thesis
    unfolding generateCardAsync_card_fails[OF card_fails] using card_fails by simp
next
  case (completes calls gc w3 c)
  from insertCard_Inr[OF completes(2)] have "api_log w3 = api_log w @ calls" by auto
  then show ?thesis
    unfolding generateCardAsync_completes[OF completes] using completes by simp
qed

lemma api_log_runBackground:
  "api_log (runBackground e w sid body u t t') =
     api_log (fst (generateCardAsync e w sid body u t))"
  by (cases "generateCardAsync e w sid body u t")
     (simp add: runBackground_def onBackgroundFailure_def split: option.splits)

lemma flash_cards_runBackground:
  "flash_cards (runBackground e w sid body u t t') =
     flash_cards (fst (generateCardAsync e w sid body u t))"
  by (cases "generateCardAsync e w sid body u t")
     (simp add: runBackground_def onBackgroundFailure_def split: option.splits)

lemma card_scenes_runBackground:
  "card_scenes (runBackground e w sid body u t t') =
     card_scenes (fst (generateCardAsync e w sid body u t))"
  by (cases "generateCardAsync e w sid body u t")
     (simp add: runBackground_def onBackgroundFailure_def split: option.splits)

text \<open>The sessions and the outcome of a run, read off the answers of the text
  generator, the moderator and the card insert alone.\<close>

lemma sessions_and_outcome:
  assumes key: "openai_api_key e"
  shows "(generation_sessions (fst (generateCardAsync e w sid body u t)),
    snd (generateCardAsync e w sid body u t)) =
   (let w1 = updateSession (store_ok e UpdateProcessing) sid markProcessing w;
        failure = (\<lambda>m. (generation_sessions
                           (updateSession (store_ok e UpdateFailed) sid (markFailed m t) w1),
                         Some m))
    in case generateTextContent e (input_prompt body) (card_type body) (generation_params body) of
         Inl m \<Rightarrow> failure m
       | Inr tc \<Rightarrow>
           (case moderateContent e (moderatedText tc) of
              Inl m \<Rightarrow> failure m
            | Inr _ \<Rightarrow>
                (case card_insert e of
                   Inl err \<Rightarrow> failure (''Failed to save card: '' @ err)
                 | Inr cid \<Rightarrow>
                     if cid \<in> set (map fc_id (flash_cards w))
                     then failure (''Failed to save card: ''
                                     @ ''duplicate key value violates unique constraint'')
                     else (generation_sessions
                             (updateSession (store_ok e UpdateCompleted) sid
                                (markCompleted
                                   (calculateCosts
                                      (case tc_usage tc of None \<Rightarrow> 0 | Some n \<Rightarrow> n)
                                      (length (tc_scenes tc))) t) w1),
                           None))))"
proof (cases "generateTextContent e (input_prompt body) (card_type body) (generation_params body)")
  case (Inl m)
  show ?thesis
    unfolding generateCardAsync_content_fails[OF generateCardContent_no_text[OF Inl] key]
    using Inl by (simp add: sessions_updateSession Let_def)
next
  case (Inr tc)
  then have chat: "chat_api e (input_prompt body) (card_type body) (generation_params body)
                     = ChatParsed tc"
    by (simp add: generateTextContent_def split: chat_response.splits)
  show ?thesis
  proof (cases "moderateContent e (moderatedText tc)")
    case (Inl m)
    show ?thesis
      unfolding generateCardAsync_content_fails[OF generateCardContent_flagged[OF chat Inl] key]
      using Inr Inl by (simp add: sessions_updateSession Let_def)
  next
    case moderated: (Inr x)
    then have moderated': "moderateContent e (moderatedText tc) = Inr ()" by simp
    let ?gc = "contentOf e (generation_params body) tc"
    let ?calls = "[ChatCompletion (input_prompt body) (card_type body),
                       Moderation (moderatedText tc)]
                      @ map (\<lambda>sc. ImageGenerate (enhancedPrompt sc (generation_params body))
                                    (imageStyle (generation_params body))) (tc_scenes tc)"
    let ?w2 = "(updateSession (store_ok e UpdateProcessing) sid markProcessing w)
                 \<lparr>api_log := api_log w @ ?calls\<rparr>"
    have g: "generateCardContent e (input_prompt body) (card_type body) (generation_params body)
             = (?calls, Inr ?gc)"
      using chat moderated' by (rule generateCardContent_parsed)
    have f: "flash_cards ?w2 = flash_cards w" by (simp add: updateSession_def)
    show ?thesis
    proof (cases "card_insert e")
      case (Inl err)
      then have i: "insertCard e ?w2 u sid body ?gc t = Inl err"
        by (simp add: insertCard_def)
      show ?thesis
        unfolding generateCardAsync_card_fails[OF g i key]
        using Inr moderated Inl by (simp add: sessions_updateSession Let_def)
    next
      case card: (Inr cid)
      show ?thesis
      proof (cases "cid \<in> set (map fc_id (flash_cards w))")
        case True
        then have i: "insertCard e ?w2 u sid body ?gc t =
            Inl ''duplicate key value violates unique constraint''"
          using card by (simp add: insertCard_def)
        show ?thesis
          unfolding generateCardAsync_card_fails[OF g i key]
          using Inr moderated card True by (simp add: sessions_updateSession Let_def)
      next
        case False
        show ?thesis
          unfolding generateCardAsync_success[OF chat moderated' card False key]
          using Inr moderated card False
          by (simp add: sessions_updateSession Let_def contentOf_def)
      qed
    qed
  qed
qed

lemma image_api_irrelevant:
  "generation_sessions (fst (generateCardAsync (e\<lparr>image_api := f\<rparr>) w sid body u t)) =
     generation_sessions (fst (generateCardAsync e w sid body u t))
   \<and> snd (generateCardAsync (e\<lparr>image_api := f\<rparr>) w sid body u t) =
       snd (generateCardAsync e w sid body u t)"
proof -
  have t: "generateTextContent (e\<lparr>image_api := f\<rparr>) = generateTextContent e"
    by (intro ext) (simp add: generateTextContent_def)
  have m: "moderateContent (e\<lparr>image_api := f\<rparr>) = moderateContent e"
    by (intro ext) (simp add: moderateContent_def)
  have "(generation_sessions (fst (generateCardAsync (e\<lparr>image_api := f\<rparr>) w sid body u t)),
         snd (generateCardAsync (e\<lparr>image_api := f\<rparr>) w sid body u t)) =
        (generation_sessions (fst (generateCardAsync e w sid body u t)),
         snd (generateCardAsync e w sid body u t))"
  proof (cases "openai_api_key e")
    case False
    then have "\<not> openai_api_key (e\<lparr>image_api := f\<rparr>)" by simp
    with False show ?thesis by (simp add: generateCardAsync_no_service)
  next
    case True
    then have k: "openai_api_key (e\<lparr>image_api := f\<rparr>)" by simp
    show ?thesis
      unfolding sessions_and_outcome[OF True] sessions_and_outcome[OF k] t m
      by (simp add: Let_def cong: sum.case_cong if_cong)
  qed
  then show ?thesis by simp
qed

section \<open>Rows of a session after an update\<close>

lemma markFailed_rows:
  assumes "b \<or> (\<forall>s \<in> set (generation_sessions w). gs_id s = sid \<longrightarrow>
              gs_status s = Failed \<and> gs_error_message s = Some m \<and> gs_completed_at s \<noteq> None)"
  shows "\<forall>s \<in> set (generation_sessions (updateSession b sid (markFailed m t) w)).
           gs_id s = sid \<longrightarrow>
             gs_status s = Failed \<and> gs_error_message s = Some m \<and> gs_completed_at s \<noteq> None"
proof (intro ballI impI)
  fix s assume mem: "s \<in> set (generation_sessions (updateSession b sid (markFailed m t) w))"
    and i: "gs_id s = sid"
  from mem obtain s0 where s0: "s0 \<in> set (generation_sessions w)"
    and s: "s = (if b \<and> gs_id s0 = sid then markFailed m t s0 else s0)"
    by (rule updateSession_row)
  have k: "gs_id (markFailed m t s0) = gs_id s0" by (simp add: markFailed_def)
  show "gs_status s = Failed \<and> gs_error_message s = Some m \<and> gs_completed_at s \<noteq> None"
  proof (cases "b \<and> gs_id s0 = sid")
    case True
    then show ?thesis using s by (simp add: markFailed_def)
  next
    case False
    from s have e: "s = s0" by (simp only: if_not_P[OF False])
    then have "gs_id s0 = sid" using i by simp
    with False have "\<not> b" by blast
    with assms s0 e i show ?thesis by blast
  qed
qed

lemma markCompleted_rows:
  "\<forall>s \<in> set (generation_sessions (updateSession True sid (markCompleted c t) w)).
     gs_id s = sid \<longrightarrow> gs_status s = Completed \<and> gs_ai_costs s = c \<and> gs_completed_at s = Some t"
proof (intro ballI impI)
  fix s assume mem: "s \<in> set (generation_sessions (updateSession True sid (markCompleted c t) w))"
    and i: "gs_id s = sid"
  from mem obtain s0 where s0: "s0 \<in> set (generation_sessions w)"
    and s: "s = (if True \<and> gs_id s0 = sid then markCompleted c t s0 else s0)"
    by (rule updateSession_row)
  have k: "gs_id (markCompleted c t s0) = gs_id s0" by (simp add: markCompleted_def)
  have "gs_id s0 = sid" using s i k by (cases "gs_id s0 = sid") simp_all
  then have "s = markCompleted c t s0" using s by simp
  then show "gs_status s = Completed \<and> gs_ai_costs s = c \<and> gs_completed_at s = Some t"
    by (simp add: markCompleted_def)
qed

lemma failed_run_rows:
  assumes "generateCardAsync e w sid body u t = (w', Some m)"
    and ok: "(openai_api_key e \<and> store_ok e UpdateFailed) \<or> store_ok e HandlerUpdateFailed"
  shows "\<forall>s \<in> set (generation_sessions (runBackground e w sid body u t t')).
           gs_id s = sid \<longrightarrow>
             gs_status s = Failed \<and> gs_error_message s = Some m \<and> gs_completed_at s \<noteq> None"
proof -
  let ?w1 = "updateSession (store_ok e UpdateProcessing) sid markProcessing w"
  let ?w2 = "updateSession (store_ok e UpdateFailed) sid (markFailed m t) ?w1"
  have r: "runBackground e w sid body u t t' = onBackgroundFailure e sid m t' w'"
    using assms(1) by (simp add: runBackground_def)
  show ?thesis
  proof (cases "store_ok e HandlerUpdateFailed")
    case True
    then have "store_ok e HandlerUpdateFailed
        \<or> (\<forall>s \<in> set (generation_sessions w'). gs_id s = sid \<longrightarrow>
              gs_status s = Failed \<and> gs_error_message s = Some m \<and> gs_completed_at s \<noteq> None)"
      by simp
    then show ?thesis
      unfolding r onBackgroundFailure_def by (rule markFailed_rows)
  next
    case False
    with ok have key: "openai_api_key e" and upd: "store_ok e UpdateFailed" by blast+
    have g: "generation_sessions
               (updateSession (store_ok e HandlerUpdateFailed) sid (markFailed m t') w')
             = generation_sessions
                 (updateSession (store_ok e HandlerUpdateFailed) sid (markFailed m t') ?w2)"
      by (simp add: sessions_updateSession failed_sessions[OF assms(1) key])
    have "\<forall>s \<in> set (generation_sessions ?w2). gs_id s = sid \<longrightarrow>
            gs_status s = Failed \<and> gs_error_message s = Some m \<and> gs_completed_at s \<noteq> None"
      by (rule markFailed_rows) (simp add: upd)
    then have "store_ok e HandlerUpdateFailed
        \<or> (\<forall>s \<in> set (generation_sessions ?w2). gs_id s = sid \<longrightarrow>
              gs_status s = Failed \<and> gs_error_message s = Some m \<and> gs_completed_at s \<noteq> None)"
      by blast
    then show ?thesis
      unfolding r onBackgroundFailure_def g by (rule markFailed_rows)
  qed
qed

lemma retry_updateSession:
  assumes "\<And>s. gs_retry_count (f s) = gs_retry_count s"
  shows "map gs_retry_count (generation_sessions (updateSession b sid f w)) =
           map gs_retry_count (generation_sessions w)"
  using assms by (simp add: sessions_updateSession)

lemma retry_markProcessing [simp]: "gs_retry_count (markProcessing s) = gs_retry_count s"
  by (simp add: markProcessing_def)

lemma retry_markCompleted [simp]: "gs_retry_count (markCompleted c t s) = gs_retry_count s"
  by (simp add: markCompleted_def)

lemma retry_markFailed [simp]: "gs_retry_count (markFailed m t s) = gs_retry_count s"
  by (simp add: markFailed_def)

lemma retry_generateCardAsync:
  "map gs_retry_count (generation_sessions (fst (generateCardAsync e w sid body u t))) =
     map gs_retry_count (generation_sessions w)"
  using sessions_generateCardAsync[of e w sid body u t]
  by (elim disjE exE) (simp_all add: retry_updateSession)

lemma retry_runBackground:
  "map gs_retry_count (generation_sessions (runBackground e w sid body u t t')) =
     map gs_retry_count (generation_sessions w)"
proof (cases "generateCardAsync e w sid body u t")
  case (Pair w' r)
  have "map gs_retry_count (generation_sessions w') = map gs_retry_count (generation_sessions w)"
    using retry_generateCardAsync[of e w sid body u t] Pair by simp
  then show ?thesis
    using Pair by (cases r) (simp_all add: runBackground_def onBackgroundFailure_def retry_updateSession)
qed

section \<open>The route\<close>

lemma POST_Inr:
  assumes "POST e w req now = (w1, Inr session)"
  shows "\<exists>body user sid. validateRequest GenerateCardSchema req = Inr (body, user)
           \<and> session_insert e = Inr sid
           \<and> sid \<notin> set (map gs_id (generation_sessions w))
           \<and> session = newSession sid user body now
           \<and> w1 = w\<lparr>generation_sessions := generation_sessions w @ [session]\<rparr>"
  using assms
  by (auto simp: POST_def insertSession_def Let_def split: sum.splits if_splits option.splits)

lemma POST_Inl:
  assumes "POST e w req now = (w1, Inl err)"
  shows "w1 = w"
  using assms
  by (auto simp: POST_def insertSession_def Let_def split: sum.splits if_splits option.splits)

lemma POST_admitted:
  assumes "validateRequest GenerateCardSchema req = Inr (body, user)"
    and "checkUserQuota e w user now = \<lparr>allowed = True, message = None\<rparr>"
    and "session_insert e = Inr sid"
    and "sid \<notin> set (map gs_id (generation_sessions w))"
  shows "POST e w req now =
           (w\<lparr>generation_sessions := generation_sessions w @ [newSession sid user body now]\<rparr>,
            Inr (newSession sid user body now))"
  using assms by (simp add: POST_def insertSession_def)

lemma checkUserQuota_at_limit:
  assumes "user_lookup e \<noteq> LookupThrows" and "count_lookup e = LookupOk"
    and "map_of quotaLimits (userTier e w user) = Some L"
  shows "checkUserQuota e w user now =
      (if sessionsToday w user now \<ge> L then \<lparr>allowed = False, message = Some (quotaMessage L)\<rparr>
       else \<lparr>allowed = True, message = None\<rparr>)"
  using assms by (simp add: checkUserQuota_def Let_def)

section \<open>The card repository\<close>

lemma filter_map_approved:
  "filter (\<lambda>c. fc_id c = cardId \<and> fc_user_id c = userId)
     (map (\<lambda>c. if fc_id c = cardId \<and> fc_user_id c = userId
                then setApproved t c else c) cs) =
   map (setApproved t)
     (filter (\<lambda>c. fc_id c = cardId \<and> fc_user_id c = userId) cs)"
  by (induction cs) (simp_all add: setApproved_def)

lemma comp_approved:
  "(\<lambda>c. if fc_id c = cardId \<and> fc_user_id c = userId then setApproved t2 c else c)
     \<circ> (\<lambda>c. if fc_id c = cardId \<and> fc_user_id c = userId then setApproved t1 c else c) =
   (\<lambda>c. if fc_id c = cardId \<and> fc_user_id c = userId then setApproved t2 c else c)"
  by (rule ext) (simp add: setApproved_def)

section \<open>The status route\<close>

lemma GET_without_body:
  assumes "req_body req = None"
  shows "GET w req sessionId =
           Inl \<lparr>err_code = ''VALIDATION_ERROR'', err_message = ''Invalid request data'',
                err_status = 400\<rparr>"
  using assms by (simp add: GET_def validateRequest_def)

text \<open>A request with a body: a session that exists but belongs to another user is
  answered with \<^verbatim>\<open>NOT_FOUND\<close>, status 404 (identifiers are unique: the primary key). And
  for every request: a response that carries a session carries a stored session with the
  identifier asked for whose owner is the user of the request.\<close>

lemma GET_isolation:
  "(validateRequest (\<lambda>_. True) req = Inr (b, user)
      \<and> s \<in> set (generation_sessions w) \<and> gs_id s = sessionId \<and> gs_user_id s \<noteq> user
      \<and> distinct (map gs_id (generation_sessions w)) \<longrightarrow>
          GET w req sessionId =
            Inl \<lparr>err_code = ''NOT_FOUND'', err_message = ''Session not found'',
                 err_status = 404\<rparr>)
   \<and> (\<forall>r. GET w req sessionId = Inr r \<longrightarrow>
            sr_session r \<in> set (generation_sessions w)
            \<and> gs_id (sr_session r) = sessionId
            \<and> req_user req = Some (gs_user_id (sr_session r)))"
proof -
  let ?mine = "\<lambda>user. filter (\<lambda>x. gs_id x = sessionId \<and> gs_user_id x = user) (generation_sessions w)"
  have other: "GET w req sessionId =
            Inl \<lparr>err_code = ''NOT_FOUND'', err_message = ''Session not found'',
                 err_status = 404\<rparr>"
    if h: "validateRequest (\<lambda>_. True) req = Inr (b, user)
      \<and> s \<in> set (generation_sessions w) \<and> gs_id s = sessionId \<and> gs_user_id s \<noteq> user
      \<and> distinct (map gs_id (generation_sessions w))"
  proof -
    have "?mine user = []"
    proof (rule ccontr)
      assume "?mine user \<noteq> []"
      then obtain x where x: "x \<in> set (generation_sessions w)" "gs_id x = sessionId"
        "gs_user_id x = user"
        by (auto simp: filter_empty_conv)
      from h have "inj_on gs_id (set (generation_sessions w))"
        by (simp add: distinct_map)
      with x h have "x = s" by (auto dest: inj_onD)
      with x h show False by simp
    qed
    then show ?thesis using h by (simp add: GET_def)
  qed
  have owner: "sr_session r \<in> set (generation_sessions w)
            \<and> gs_id (sr_session r) = sessionId
            \<and> req_user req = Some (gs_user_id (sr_session r))"
    if g: "GET w req sessionId = Inr r" for r
  proof -
    from g obtain b' user' where v: "validateRequest (\<lambda>_. True) req = Inr (b', user')"
      by (cases "validateRequest (\<lambda>_. True) req") (auto simp: GET_def)
    then have u: "req_user req = Some user'"
      by (auto simp: validateRequest_def split: option.splits if_splits)
    from g v obtain x where x: "single (?mine user') = Some x" and r: "sr_session r = x"
      by (auto simp: GET_def split: option.splits)
    from x have "?mine user' = [x]" by (simp add: single_Some)
    then have "x \<in> set (?mine user')" by simp
    with r u show ?thesis by simp
  qed
  from other owner show ?thesis by blast
qed

lemma GET_isolation_example:
  "validateRequest (\<lambda>_. True) otherRequest = Inr ((), ''u2'')
   \<and> map gs_id (generation_sessions pendingWorld) = [''s1'']
   \<and> map gs_user_id (generation_sessions pendingWorld) = [''u1'']
   \<and> GET pendingWorld otherRequest ''s1'' =
       Inl \<lparr>err_code = ''NOT_FOUND'', err_message = ''Session not found'', err_status = 404\<rparr>"
proof -
  have v: "validateRequest (\<lambda>_. True) otherRequest = Inr ((), ''u2'')"
    by (simp add: validateRequest_def otherRequest_def)
  have i: "map gs_id (generation_sessions pendingWorld) = [''s1'']"
    and o: "map gs_user_id (generation_sessions pendingWorld) = [''u1'']"
    by (simp_all add: pendingWorld_def demoWorld_def newSession_def)
  have h: "newSession ''s1'' ''u1'' demoBody 1000 \<in> set (generation_sessions pendingWorld)
      \<and> gs_id (newSession ''s1'' ''u1'' demoBody 1000) = ''s1''
      \<and> gs_user_id (newSession ''s1'' ''u1'' demoBody 1000) \<noteq> ''u2''
      \<and> distinct (map gs_id (generation_sessions pendingWorld))"
    by (simp add: pendingWorld_def demoWorld_def newSession_def)
  from GET_isolation[where req=otherRequest and b="()" and user="''u2''"
         and s="newSession ''s1'' ''u1'' demoBody 1000" and w=pendingWorld and sessionId="''s1''"]
    v h
  have "GET pendingWorld otherRequest ''s1'' =
       Inl \<lparr>err_code = ''NOT_FOUND'', err_message = ''Session not found'', err_status = 404\<rparr>"
    by blast
  with v i o show ?thesis by simp
qed

section \<open>The window of the count query\<close>

text \<open>The query counts the sessions of the calendar day, except those created in its
  last millisecond.\<close>

lemma in_window_iff:
  "dayStart (today now) \<le> t \<and> t < dayEnd (today now)
     \<longleftrightarrow> calendarDay t = calendarDay now \<and> t \<noteq> calendarDay now * 86400000 + 86399999"
  unfolding dayStart_def dayEnd_def today_def calendarDay_def msPerDay_def by arith

lemma sessionsToday_calendar:
  "sessionsToday w user now =
     length (filter (\<lambda>s. gs_created_at s \<noteq> calendarDay now * 86400000 + 86399999)
               (createdOnDay w user now))"
proof -
  have "filter (\<lambda>s. gs_user_id s = user
                        \<and> dayStart (today now) \<le> gs_created_at s
                        \<and> gs_created_at s < dayEnd (today now))
               (generation_sessions w)
        = filter (\<lambda>s. gs_created_at s \<noteq> calendarDay now * 86400000 + 86399999)
               (createdOnDay w user now)"
    unfolding createdOnDay_def filter_filter
    by (rule filter_cong[OF refl]) (use in_window_iff in blast)
  then show ?thesis by (simp add: sessionsToday_def)
qed

lemma sessionsToday_le: "sessionsToday w user now \<le> length (createdOnDay w user now)"
  unfolding sessionsToday_calendar by (rule length_filter_le)

lemma sessionsToday_whole_day:
  assumes "\<forall>s \<in> set (createdOnDay w user now).
             gs_created_at s \<noteq> calendarDay now * 86400000 + 86399999"
  shows "sessionsToday w user now = length (createdOnDay w user now)"
proof -
  have "filter (\<lambda>s. gs_created_at s \<noteq> calendarDay now * 86400000 + 86399999)
          (createdOnDay w user now) = createdOnDay w user now"
    using assms by (simp add: filter_id_conv)
  then show ?thesis by (simp add: sessionsToday_calendar)
qed

text \<open>The limit of a stored tier.\<close>

lemma stored_tier_limit:
  assumes "user_lookup e = LookupOk"
    and "filter (\<lambda>u. u_id u = user) (users w) = [usr]"
    and "u_subscription_tier usr = Some tier"
    and "(tier, L) \<in> {(''free'', 5), (''educator'', 50), (''premium'', 200)}"
  shows "map_of quotaLimits (userTier e w user) = Some L"
proof -
  from assms(4) have t: "tier \<noteq> []" by auto
  with assms(1-3) have "userTier e w user = tier" by (simp add: userTier_def)
  with assms(4) show ?thesis by (auto simp: quotaLimits_def)
qed

text \<open>The boundary of the quota, for a user whose sessions of the day were all created
  before its last millisecond: with \<open>L\<close> sessions on the calendar day the request is refused
  and nothing is stored; with fewer, and a successful insert, a Pending session is stored
  and returned. With fewer than \<open>L\<close> sessions the request is admitted whenever they were
  created.\<close>

lemma quota_gate_on_calendar_day:
  assumes v: "validateRequest GenerateCardSchema req = Inr (body, user)"
    and ul: "user_lookup e = LookupOk" and cl: "count_lookup e = LookupOk"
    and row: "filter (\<lambda>u. u_id u = user) (users w) = [usr]"
    and tier: "u_subscription_tier usr = Some tier"
    and limit: "(tier, L) \<in> {(''free'', 5), (''educator'', 50), (''premium'', 200)}"
  shows "((\<forall>s \<in> set (createdOnDay w user now).
             gs_created_at s \<noteq> calendarDay now * 86400000 + 86399999)
          \<and> length (createdOnDay w user now) = L \<longrightarrow>
            POST e w req now =
              (w, Inl \<lparr>err_code = ''QUOTA_EXCEEDED'', err_message = quotaMessage L,
                       err_status = 429\<rparr>))
       \<and> (length (createdOnDay w user now) < L \<and> session_insert e = Inr sid
            \<and> sid \<notin> set (map gs_id (generation_sessions w)) \<longrightarrow>
            POST e w req now =
              (w\<lparr>generation_sessions :=
                   generation_sessions w @ [newSession sid user body now]\<rparr>,
               Inr (newSession sid user body now))
            \<and> gs_status (newSession sid user body now) = Pending
            \<and> gs_user_id (newSession sid user body now) = user)"
proof -
  from ul have ul': "user_lookup e \<noteq> LookupThrows" by simp
  have m: "map_of quotaLimits (userTier e w user) = Some L"
    using ul row tier limit by (rule stored_tier_limit)
  have q: "checkUserQuota e w user now =
      (if sessionsToday w user now \<ge> L then \<lparr>allowed = False, message = Some (quotaMessage L)\<rparr>
       else \<lparr>allowed = True, message = None\<rparr>)"
    using ul' cl m by (rule checkUserQuota_at_limit)
  have a: "POST e w req now =
              (w, Inl \<lparr>err_code = ''QUOTA_EXCEEDED'', err_message = quotaMessage L,
                       err_status = 429\<rparr>)"
    if h: "(\<forall>s \<in> set (createdOnDay w user now).
             gs_created_at s \<noteq> calendarDay now * 86400000 + 86399999)
          \<and> length (createdOnDay w user now) = L"
  proof -
    from h have "sessionsToday w user now = L"
      by (simp add: sessionsToday_whole_day)
    then show ?thesis
      using v by (simp add: POST_def q QuotaExceededError_def)
  qed
  have b: "POST e w req now =
              (w\<lparr>generation_sessions :=
                   generation_sessions w @ [newSession sid user body now]\<rparr>,
               Inr (newSession sid user body now))
            \<and> gs_status (newSession sid user body now) = Pending
            \<and> gs_user_id (newSession sid user body now) = user"
    if h: "length (createdOnDay w user now) < L \<and> session_insert e = Inr sid
            \<and> sid \<notin> set (map gs_id (generation_sessions w))"
  proof -
    from h sessionsToday_le[of w user now] have "sessionsToday w user now < L" by simp
    with q have "checkUserQuota e w user now = \<lparr>allowed = True, message = None\<rparr>" by simp
    from POST_admitted[OF v this] h show ?thesis by (simp add: newSession_def)
  qed
  from a b show ?thesis by blast
qed

text \<open>Five sessions early in the day: the sixth request is refused. Four: the fifth is
  admitted.\<close>

lemma quota_gate_example:
  "length (createdOnDay quotaWorld ''u1'' 1000) = 5
   \<and> POST demoEnv quotaWorld demoRequest 1000 =
       (quotaWorld,
        Inl \<lparr>err_code = ''QUOTA_EXCEEDED'',
             err_message = ''Daily limit of 5 cards reached. Upgrade to generate more cards.'',
             err_status = 429\<rparr>)
   \<and> length (createdOnDay almostWorld ''u1'' 1000) = 4
   \<and> POST demoEnv almostWorld demoRequest 1000 =
       (almostWorld\<lparr>generation_sessions :=
                     generation_sessions almostWorld @ [newSession ''s1'' ''u1'' demoBody 1000]\<rparr>,
        Inr (newSession ''s1'' ''u1'' demoBody 1000))"
proof -
  have v: "validateRequest GenerateCardSchema demoRequest = Inr (demoBody, ''u1'')"
    by (simp add: validateRequest_def GenerateCardSchema_def demoRequest_def demoBody_def)
  have u: "user_lookup demoEnv = LookupOk" and c: "count_lookup demoEnv = LookupOk"
    by (simp_all add: demoEnv_def)
  have r5: "filter (\<lambda>u. u_id u = ''u1'') (users quotaWorld)
              = [\<lparr>u_id = ''u1'', u_subscription_tier = Some ''free''\<rparr>]"
    and r4: "filter (\<lambda>u. u_id u = ''u1'') (users almostWorld)
              = [\<lparr>u_id = ''u1'', u_subscription_tier = Some ''free''\<rparr>]"
    by (simp_all add: quotaWorld_def almostWorld_def demoWorld_def)
  have t: "u_subscription_tier \<lparr>u_id = ''u1'', u_subscription_tier = Some ''free''\<rparr>
             = Some ''free''"
    and l: "(''free'', 5) \<in> {(''free'', 5), (''educator'', 50), (''premium'', 200::nat)}"
    by simp_all
  have n5: "length (createdOnDay quotaWorld ''u1'' 1000) = 5
            \<and> (\<forall>s \<in> set (createdOnDay quotaWorld ''u1'' 1000).
                 gs_created_at s \<noteq> calendarDay 1000 * 86400000 + 86399999)"
    by (simp add: createdOnDay_def calendarDay_def quotaWorld_def sessionsOf_def newSession_def)
  have n4: "length (createdOnDay almostWorld ''u1'' 1000) = 4"
    by (simp add: createdOnDay_def calendarDay_def almostWorld_def sessionsOf_def newSession_def)
  have i: "session_insert demoEnv = Inr ''s1''"
    by (simp add: demoEnv_def)
  have f: "''s1'' \<notin> set (map gs_id (generation_sessions almostWorld))"
    by (simp add: almostWorld_def sessionsOf_def newSession_def)
  have m: "quotaMessage 5 = ''Daily limit of 5 cards reached. Upgrade to generate more cards.''"
    by (simp add: quotaMessage_def digit_char_def)
  from quota_gate_on_calendar_day[OF v u c r5 t l, of 1000] n5 m
  have a: "POST demoEnv quotaWorld demoRequest 1000 =
       (quotaWorld,
        Inl \<lparr>err_code = ''QUOTA_EXCEEDED'',
             err_message = ''Daily limit of 5 cards reached. Upgrade to generate more cards.'',
             err_status = 429\<rparr>)"
    by simp
  from quota_gate_on_calendar_day[OF v u c r4 t l, of 1000 "''s1''"] n4 i f
  have b: "POST demoEnv almostWorld demoRequest 1000 =
       (almostWorld\<lparr>generation_sessions :=
                     generation_sessions almostWorld @ [newSession ''s1'' ''u1'' demoBody 1000]\<rparr>,
        Inr (newSession ''s1'' ''u1'' demoBody 1000))"
    by simp
  from n5 a n4 b show ?thesis by (intro conjI) simp_all
qed

section \<open>The costs at some inputs\<close>

lemmas round_defs =
  roundToDouble_def scale_def normalise_def roundHalfEven_def tiesToEven_def pack_def
  bitLength.simps

text \<open>The rounding at two well-known values: 0.1 is 7205759403792794 / 2^56, and
  0.1 + 0.2 is the double next above 0.3.\<close>

lemma roundToDouble_tenth: "roundToDouble 1 10 = (7205759403792794, 72057594037927936)"
  by (simp add: round_defs)

lemma dadd_tenth_fifth:
  "dadd (roundToDouble 1 10) (roundToDouble 2 10) = (5404319552844596, 18014398509481984)
   \<and> roundToDouble 3 10 = (5404319552844595, 18014398509481984)"
  by (simp add: dadd_def round_defs)

text \<open>The three prices.\<close>

lemma gpt4InputCost_value: "gpt4InputCost = (8854437155380584, 295147905179352825856)"
  by (simp add: gpt4InputCost_def ddiv_def round_defs)

lemma gpt4OutputCost_value: "gpt4OutputCost = (8854437155380584, 147573952589676412928)"
  by (simp add: gpt4OutputCost_def ddiv_def round_defs)

lemma dalleE3Cost_value: "dalleE3Cost = (5764607523034235, 144115188075855872)"
  by (simp add: dalleE3Cost_def round_defs)

lemmas double_defs =
  gpt4InputCost_value gpt4OutputCost_value dalleE3Cost_value
  textCost_def imageCost_def toFixed4_def dadd_def dmul_def ddiv_def round_defs

text \<open>1010 tokens and four scenes: 0.2054 (the exact sum is 0.20545). Ten tokens and no
  scene: 0.0004 (the exact sum is 0.00045).\<close>

lemma total_1010_4: "toFixed4 (dadd (textCost 1010) (imageCost 4)) = 2054"
  by (simp add: double_defs)

lemma total_10_0: "toFixed4 (dadd (textCost 10) (imageCost 0)) = 4"
  by (simp add: double_defs)

lemma total_1000_2: "toFixed4 (dadd (textCost 1000) (imageCost 2)) = 1250"
  by (simp add: double_defs)

lemma total_1000_1: "toFixed4 (dadd (textCost 1000) (imageCost 1)) = 850"
  by (simp add: double_defs)

lemma calculateCosts_1010_4:
  "calculateCosts 1010 4 =
     \<lparr>text_tokens = 1010, image_generations = 4, total_cost_usd = 2054 / 10000\<rparr>"
  unfolding calculateCosts_def total_1010_4 by simp

lemma calculateCosts_10_0:
  "calculateCosts 10 0 =
     \<lparr>text_tokens = 10, image_generations = 0, total_cost_usd = 4 / 10000\<rparr>"
  unfolding calculateCosts_def total_10_0 by simp

section \<open>The invariant of the completion time\<close>

lemma inv_markCompleted:
  assumes "\<forall>s \<in> set (generation_sessions w). completedAtInvariant s"
  shows "\<forall>s \<in> set (generation_sessions (updateSession b sid (markCompleted c t) w)).
           completedAtInvariant s"
  using assms
  by (auto simp: sessions_updateSession completedAtInvariant_def markCompleted_def)

lemma inv_markFailed:
  assumes "\<forall>s \<in> set (generation_sessions w). completedAtInvariant s"
  shows "\<forall>s \<in> set (generation_sessions (updateSession b sid (markFailed m t) w)).
           completedAtInvariant s"
  using assms
  by (auto simp: sessions_updateSession completedAtInvariant_def markFailed_def)

lemma inv_markProcessing:
  assumes "\<forall>s \<in> set (generation_sessions w). completedAtInvariant s"
    and "\<forall>s \<in> set (generation_sessions w). gs_id s = sid \<longrightarrow> gs_completed_at s = None"
  shows "\<forall>s \<in> set (generation_sessions (updateSession b sid markProcessing w)).
           completedAtInvariant s"
proof (cases b)
  case False
  then show ?thesis using assms(1) by (simp add: sessions_updateSession)
next
  case True
  show ?thesis
  proof
    fix s' assume "s' \<in> set (generation_sessions (updateSession b sid markProcessing w))"
    then obtain s where s: "s \<in> set (generation_sessions w)"
      and s': "s' = (if gs_id s = sid then markProcessing s else s)"
      using True by (auto simp: sessions_updateSession)
    show "completedAtInvariant s'"
    proof (cases "gs_id s = sid")
      case True
      with assms(2) s have "gs_completed_at s = None" by blast
      moreover from assms(1) s have "completedAtInvariant s" by blast
      ultimately show ?thesis
        using s' True by (simp add: completedAtInvariant_def markProcessing_def)
    next
      case False
      with assms(1) s s' show ?thesis by simp
    qed
  qed
qed

lemma inv_generateCardAsync:
  assumes "\<forall>s \<in> set (generation_sessions w). completedAtInvariant s"
    and "\<forall>s \<in> set (generation_sessions w). gs_id s = sid \<longrightarrow> gs_completed_at s = None"
  shows "\<forall>s \<in> set (generation_sessions (fst (generateCardAsync e w sid body u t))).
           completedAtInvariant s"
proof -
  have i1: "\<forall>s \<in> set (generation_sessions
           (updateSession (store_ok e UpdateProcessing) sid markProcessing w)).
             completedAtInvariant s"
    using assms by (rule inv_markProcessing)
  from sessions_generateCardAsync[of e w sid body u t] show ?thesis
  proof (elim disjE exE)
    fix b c
    assume s: "generation_sessions (fst (generateCardAsync e w sid body u t)) =
       generation_sessions
         (updateSession b sid (markCompleted c t)
            (updateSession (store_ok e UpdateProcessing) sid markProcessing w))"
    show ?thesis unfolding s by (rule inv_markCompleted[OF i1])
  next
    fix b m
    assume s: "generation_sessions (fst (generateCardAsync e w sid body u t)) =
       generation_sessions
         (updateSession b sid (markFailed m t)
            (updateSession (store_ok e UpdateProcessing) sid markProcessing w))"
    show ?thesis unfolding s by (rule inv_markFailed[OF i1])
  next
    assume s: "generation_sessions (fst (generateCardAsync e w sid body u t)) =
       generation_sessions w"
    show ?thesis unfolding s by (rule assms(1))
  qed
qed

lemma inv_runBackground:
  assumes "\<forall>s \<in> set (generation_sessions w). completedAtInvariant s"
    and "\<forall>s \<in> set (generation_sessions w). gs_id s = sid \<longrightarrow> gs_completed_at s = None"
  shows "\<forall>s \<in> set (generation_sessions (runBackground e w sid body u t t')).
           completedAtInvariant s"
proof (cases "generateCardAsync e w sid body u t")
  case (Pair w' r)
  have i: "\<forall>s \<in> set (generation_sessions w'). completedAtInvariant s"
    using inv_generateCardAsync[OF assms, of e body u t] Pair by simp
  show ?thesis
  proof (cases r)
    case None
    with Pair i show ?thesis by (simp add: runBackground_def)
  next
    case (Some m)
    with Pair inv_markFailed[OF i, of "store_ok e HandlerUpdateFailed" sid m t'] show ?thesis
      by (simp add: runBackground_def onBackgroundFailure_def)
  qed
qed

lemma inv_newSession: "completedAtInvariant (newSession sid user body now)"
  by (simp add: completedAtInvariant_def newSession_def)

lemma POST_session:
  assumes "\<forall>s \<in> set (generation_sessions w). completedAtInvariant s"
    and "POST e w req now = (w1, Inr session)"
  shows "(\<forall>s \<in> set (generation_sessions w1). completedAtInvariant s)
       \<and> (\<forall>s \<in> set (generation_sessions w1).
             gs_id s = gs_id session \<longrightarrow> gs_completed_at s = None)
       \<and> gs_status session = Pending \<and> gs_completed_at session = None"
proof -
  from assms(2) obtain body' user' sid' where
        fresh: "sid' \<notin> set (map gs_id (generation_sessions w))"
    and sess: "session = newSession sid' user' body' now"
    and w1: "w1 = w\<lparr>generation_sessions := generation_sessions w @ [session]\<rparr>"
    using POST_Inr by blast
  have i1: "\<forall>s \<in> set (generation_sessions w1). completedAtInvariant s"
    using assms(1) w1 sess inv_newSession by auto
  have sid: "gs_id session = sid'" using sess by (simp add: newSession_def)
  have p: "gs_status session = Pending" using sess by (simp add: newSession_def)
  have c: "gs_completed_at session = None" using sess by (simp add: newSession_def)
  have none: "\<forall>s \<in> set (generation_sessions w1).
                gs_id s = gs_id session \<longrightarrow> gs_completed_at s = None"
  proof (intro ballI impI)
    fix s assume "s \<in> set (generation_sessions w1)" and e: "gs_id s = gs_id session"
    then have "s \<in> set (generation_sessions w) \<or> s = session" using w1 by auto
    moreover have "s \<notin> set (generation_sessions w)" using fresh e sid by auto
    ultimately show "gs_completed_at s = None" using c by blast
  qed
  from i1 none p c show ?thesis by (intro conjI)
qed

lemma inv_generateRequest:
  assumes "\<forall>s \<in> set (generation_sessions w). completedAtInvariant s"
  shows "(\<forall>s \<in> set (generation_sessions (fst (POST e w req now))). completedAtInvariant s)
       \<and> (\<forall>s \<in> set (generation_sessions (fst (generateRequest e w req now finished later))).
            completedAtInvariant s)"
proof -
  obtain w1 r where p: "POST e w req now = (w1, r)"
    by (cases "POST e w req now")
  show ?thesis
  proof (cases r)
    case (Inl err)
    then have "w1 = w" using p POST_Inl by blast
    with assms p Inl show ?thesis
      by (simp add: generateRequest_def)
  next
    case (Inr session)
    with p have q: "POST e w req now = (w1, Inr session)" by simp
    from POST_session[OF assms q]
    have i1: "\<forall>s \<in> set (generation_sessions w1). completedAtInvariant s"
      and none: "\<forall>s \<in> set (generation_sessions w1).
                   gs_id s = gs_id session \<longrightarrow> gs_completed_at s = None"
      by blast+
    from q obtain body' user' where
      v: "validateRequest GenerateCardSchema req = Inr (body', user')"
      using POST_Inr by blast
    have "generateRequest e w req now finished later =
            (runBackground e w1 (gs_id session) body' user' finished later, Inr session)"
      using q v by (simp add: generateRequest_def)
    with inv_runBackground[OF i1 none] i1 p show ?thesis by simp
  qed
qed

section \<open>Properties of the specification\<close>

text \<open>
  C1. For every session, \<^verbatim>\<open>completed_at\<close> is set if and only if the status is Completed or
  Failed. If that holds of every stored session before a request, it holds after the
  route has answered, after the processing update of the new session, after the background
  function, and at the end of the whole request, whatever the collaborators answer and
  whichever updates the store applies. The session is created Pending without
  \<^verbatim>\<open>completed_at\<close>; the update to Processing leaves \<^verbatim>\<open>completed_at\<close> as it is; the update to
  Completed and the update to Failed both set it.
\<close>

theorem completed_at_iff_terminal:
  assumes "\<forall>s \<in> set (generation_sessions w). completedAtInvariant s"
  shows "(\<forall>s \<in> set (generation_sessions (fst (POST e w req now))). completedAtInvariant s)
       \<and> (\<forall>w1 session. POST e w req now = (w1, Inr session) \<longrightarrow>
            gs_status session = Pending \<and> gs_completed_at session = None
            \<and> (\<forall>applied. \<forall>s \<in> set (generation_sessions
                                   (updateSession applied (gs_id session) markProcessing w1)).
                  completedAtInvariant s)
            \<and> (\<forall>body user t. \<forall>s \<in> set (generation_sessions
                                   (fst (generateCardAsync e w1 (gs_id session) body user t))).
                  completedAtInvariant s))
       \<and> (\<forall>s \<in> set (generation_sessions (fst (generateRequest e w req now finished later))).
            completedAtInvariant s)
       \<and> gs_status (newSession sid user body now) = Pending
       \<and> gs_completed_at (newSession sid user body now) = None
       \<and> gs_status (markProcessing s) = Processing
       \<and> gs_completed_at (markProcessing s) = gs_completed_at s
       \<and> gs_status (markCompleted c t s) = Completed
       \<and> gs_completed_at (markCompleted c t s) = Some t
       \<and> gs_status (markFailed m t s) = Failed
       \<and> gs_completed_at (markFailed m t s) = Some t"
proof -
  have steps: "gs_status session = Pending \<and> gs_completed_at session = None
            \<and> (\<forall>applied. \<forall>s \<in> set (generation_sessions
                                   (updateSession applied (gs_id session) markProcessing w1)).
                  completedAtInvariant s)
            \<and> (\<forall>body user t. \<forall>s \<in> set (generation_sessions
                                   (fst (generateCardAsync e w1 (gs_id session) body user t))).
                  completedAtInvariant s)"
    if q: "POST e w req now = (w1, Inr session)" for w1 session
  proof -
    from POST_session[OF assms q]
    have i1: "\<forall>s \<in> set (generation_sessions w1). completedAtInvariant s"
      and none: "\<forall>s \<in> set (generation_sessions w1).
                   gs_id s = gs_id session \<longrightarrow> gs_completed_at s = None"
      and p: "gs_status session = Pending" and c: "gs_completed_at session = None"
      by blast+
    have x: "\<forall>s \<in> set (generation_sessions
                          (updateSession applied (gs_id session) markProcessing w1)).
               completedAtInvariant s" for applied
      using i1 none by (rule inv_markProcessing)
    have y: "\<forall>s \<in> set (generation_sessions
                          (fst (generateCardAsync e w1 (gs_id session) body user t))).
               completedAtInvariant s" for body user t
      using i1 none by (rule inv_generateCardAsync)
    from p c x y show ?thesis by (intro conjI allI)
  qed
  have a: "gs_status (newSession sid user body now) = Pending
       \<and> gs_completed_at (newSession sid user body now) = None"
    by (simp add: newSession_def)
  have b: "gs_status (markProcessing s) = Processing
       \<and> gs_completed_at (markProcessing s) = gs_completed_at s"
    by (simp add: markProcessing_def)
  have c: "gs_status (markCompleted c t s) = Completed
       \<and> gs_completed_at (markCompleted c t s) = Some t"
    by (simp add: markCompleted_def)
  have d: "gs_status (markFailed m t s) = Failed
       \<and> gs_completed_at (markFailed m t s) = Some t"
    by (simp add: markFailed_def)
  from inv_generateRequest[OF assms, of e req now finished later]
  have r: "(\<forall>s \<in> set (generation_sessions (fst (POST e w req now))). completedAtInvariant s)"
    and g: "(\<forall>s \<in> set (generation_sessions (fst (generateRequest e w req now finished later))).
            completedAtInvariant s)"
    by blast+
  from steps have steps': "\<forall>w1 session. POST e w req now = (w1, Inr session) \<longrightarrow>
            gs_status session = Pending \<and> gs_completed_at session = None
            \<and> (\<forall>applied. \<forall>s \<in> set (generation_sessions
                                   (updateSession applied (gs_id session) markProcessing w1)).
                  completedAtInvariant s)
            \<and> (\<forall>body user t. \<forall>s \<in> set (generation_sessions
                                   (fst (generateCardAsync e w1 (gs_id session) body user t))).
                  completedAtInvariant s)"
    by (intro allI impI)
  from r steps' g a b c d show ?thesis by (intro conjI) simp_all
qed

theorem completed_at_iff_terminal_witness:
  "list_all completedAtInvariant (generation_sessions historyWorld)
   \<and> map gs_status (generation_sessions historyWorld) = [Completed]
   \<and> list_all completedAtInvariant
        (generation_sessions (fst (generateRequest demoEnv historyWorld demoRequest 1000 2000 3000)))
   \<and> map gs_status
        (generation_sessions (fst (generateRequest demoEnv historyWorld demoRequest 1000 2000 3000)))
        = [Completed, Completed]
   \<and> map gs_completed_at
        (generation_sessions (fst (generateRequest demoEnv historyWorld demoRequest 1000 2000 3000)))
        = [Some 500, Some 2000]"
proof -
  have h: "\<forall>s \<in> set (generation_sessions historyWorld). completedAtInvariant s"
    by (simp add: historyWorld_def demoWorld_def completedAtInvariant_def markCompleted_def)
  have s: "map gs_status (generation_sessions historyWorld) = [Completed]"
    by (simp add: historyWorld_def demoWorld_def markCompleted_def)
  have r: "map gs_status
        (generation_sessions (fst (generateRequest demoEnv historyWorld demoRequest 1000 2000 3000)))
        = [Completed, Completed]
   \<and> map gs_completed_at
        (generation_sessions (fst (generateRequest demoEnv historyWorld demoRequest 1000 2000 3000)))
        = [Some 500, Some 2000]"
    by (simp add: eval_defs Let_def)
  from completed_at_iff_terminal[OF h, of demoEnv demoRequest 1000 2000 3000]
  have "\<forall>s \<in> set (generation_sessions
           (fst (generateRequest demoEnv historyWorld demoRequest 1000 2000 3000))).
          completedAtInvariant s"
    by blast
  with h s r show ?thesis by (simp add: list_all_iff)
qed

text \<open>
  C2, as the code has it. When the background function ends with an error, of whatever
  kind, the session is Failed with the message of the error and a completion time as soon
  as the store applies one of the two updates that follow (the one of the \<^verbatim>\<open>catch\<close> block,
  which is reached once the service is constructed, or the one of the route); the retry
  count of no session changes (a session is created with 0, and no step writes the column),
  so it never exceeds 3; and the text generator has been called once, or not at all when the
  service could not be constructed: the run is not started again.
\<close>

theorem failed_run_keeps_retry_count:
  assumes "snd (generateCardAsync e w sid body u t) = Some m"
  shows "map gs_retry_count (generation_sessions (runBackground e w sid body u t t')) =
           map gs_retry_count (generation_sessions w)
       \<and> ((openai_api_key e \<and> store_ok e UpdateFailed) \<or> store_ok e HandlerUpdateFailed \<longrightarrow>
            (\<forall>s \<in> set (generation_sessions (runBackground e w sid body u t t')).
               gs_id s = sid \<longrightarrow>
                 gs_status s = Failed \<and> gs_error_message s = Some m
                 \<and> gs_completed_at s \<noteq> None))
       \<and> chatCalls (api_log (runBackground e w sid body u t t')) =
           chatCalls (api_log w) + (if openai_api_key e then 1 else 0)
       \<and> ((\<forall>s \<in> set (generation_sessions w). gs_retry_count s \<le> 3) \<longrightarrow>
            (\<forall>s \<in> set (generation_sessions (runBackground e w sid body u t t')).
               gs_retry_count s \<le> 3))
       \<and> gs_retry_count (newSession sid' user body' now) = 0"
proof -
  let ?w = "runBackground e w sid body u t t'"
  obtain w' where run: "generateCardAsync e w sid body u t = (w', Some m)"
    using assms by (cases "generateCardAsync e w sid body u t") simp
  have a: "map gs_retry_count (generation_sessions ?w) = map gs_retry_count (generation_sessions w)"
    by (rule retry_runBackground)
  have b: "(openai_api_key e \<and> store_ok e UpdateFailed) \<or> store_ok e HandlerUpdateFailed \<longrightarrow>
            (\<forall>s \<in> set (generation_sessions ?w).
               gs_id s = sid \<longrightarrow>
                 gs_status s = Failed \<and> gs_error_message s = Some m
                 \<and> gs_completed_at s \<noteq> None)"
    using failed_run_rows[OF run, of t'] by blast
  have "api_log ?w =
          api_log w @ (if openai_api_key e
                       then fst (generateCardContent e (input_prompt body) (card_type body)
                                   (generation_params body))
                       else [])"
    unfolding api_log_runBackground by (rule api_log_generateCardAsync)
  then have c: "chatCalls (api_log ?w) =
                  chatCalls (api_log w) + (if openai_api_key e then 1 else 0)"
    by (cases "openai_api_key e") (simp_all add: chatCalls_generateCardContent)
  have d: "(\<forall>s \<in> set (generation_sessions w). gs_retry_count s \<le> 3) \<longrightarrow>
            (\<forall>s \<in> set (generation_sessions ?w). gs_retry_count s \<le> 3)"
  proof
    assume "\<forall>s \<in> set (generation_sessions w). gs_retry_count s \<le> 3"
    then have "\<forall>n \<in> set (map gs_retry_count (generation_sessions w)). n \<le> 3" by simp
    then have "\<forall>n \<in> set (map gs_retry_count (generation_sessions ?w)). n \<le> 3"
      unfolding a .
    then show "\<forall>s \<in> set (generation_sessions ?w). gs_retry_count s \<le> 3" by simp
  qed
  have e: "gs_retry_count (newSession sid' user body' now) = 0"
    by (simp add: newSession_def)
  from a b c d e show ?thesis by (intro conjI)
qed

theorem failed_run_keeps_retry_count_witness:
  "snd (generateCardAsync brokenStoreEnv pendingWorld ''s1'' demoBody ''u1'' 2000)
     = Some ''Failed to save card: connection lost''
   \<and> map gs_retry_count
        (generation_sessions
           (runBackground brokenStoreEnv pendingWorld ''s1'' demoBody ''u1'' 2000 3000))
       = map gs_retry_count (generation_sessions pendingWorld)
   \<and> chatCalls (api_log (runBackground brokenStoreEnv pendingWorld ''s1'' demoBody ''u1'' 2000 3000))
       = chatCalls (api_log pendingWorld) + 1"
proof -
  have h: "snd (generateCardAsync brokenStoreEnv pendingWorld ''s1'' demoBody ''u1'' 2000)
     = Some ''Failed to save card: connection lost''"
    by (simp add: eval_defs Let_def)
  have k: "openai_api_key brokenStoreEnv"
    by (simp add: eval_defs)
  from failed_run_keeps_retry_count[OF h, of 3000] h k show ?thesis by simp
qed

text \<open>A run whose card insert fails: the session is Failed, its retry count is 0 before
  the run and 0 after it, and the text generator was called once.\<close>

theorem retry_count_increment_counterexample:
  "snd (generateCardAsync brokenStoreEnv pendingWorld ''s1'' demoBody ''u1'' 2000)
     = Some ''Failed to save card: connection lost''
   \<and> map gs_retry_count (generation_sessions pendingWorld) = [0]
   \<and> map gs_status
        (generation_sessions
           (runBackground brokenStoreEnv pendingWorld ''s1'' demoBody ''u1'' 2000 3000))
       = [Failed]
   \<and> map gs_retry_count
        (generation_sessions
           (runBackground brokenStoreEnv pendingWorld ''s1'' demoBody ''u1'' 2000 3000))
       = [0]
   \<and> chatCalls (api_log (runBackground brokenStoreEnv pendingWorld ''s1'' demoBody ''u1'' 2000 3000))
       = 1"
  by (simp add: eval_defs Let_def chatCalls_def)

text \<open>
  C3. When the service is constructed, the text is parsed, the moderation passes and the
  store takes the card and the final update, the run ends without an error and the session is Completed, whatever the
  image calls answer: the card holds one scene for each scene of the text, in order, with
  the address of its image or, where the call failed, the empty address; the rows of
  \<^verbatim>\<open>card_scenes\<close> are those scenes; and one image call was issued for every scene. And with
  no assumption at all: the sessions a run leaves, and the error it ends with, do not depend
  on what the image calls answer.
\<close>

theorem image_failures_do_not_fail_session:
  "(openai_api_key e
      \<and> chat_api e (input_prompt body) (card_type body) (generation_params body) = ChatParsed tc
      \<and> moderateContent e (moderatedText tc) = Inr ()
      \<and> card_insert e = Inr cid \<and> cid \<notin> set (map fc_id (flash_cards w))
      \<and> store_ok e UpdateCompleted \<longrightarrow>
        snd (generateCardAsync e w sid body u t) = None
        \<and> (\<forall>s \<in> set (generation_sessions (fst (generateCardAsync e w sid body u t))).
              gs_id s = sid \<longrightarrow> gs_status s = Completed)
        \<and> (\<exists>c. flash_cards (fst (generateCardAsync e w sid body u t)) = flash_cards w @ [c]
              \<and> fc_id c = cid \<and> fc_session_id c = sid \<and> fc_status c = Preview
              \<and> length (scenes (fc_content c)) = length (tc_scenes tc)
              \<and> (\<forall>k < length (tc_scenes tc).
                    scenes (fc_content c) ! k =
                      generatedScene (tc_scenes tc ! k)
                        (case imageUrl (image_api e k
                                 (enhancedPrompt (tc_scenes tc ! k) (generation_params body))) of
                           Some url \<Rightarrow> url | None \<Rightarrow> []))
              \<and> (\<forall>k < length (tc_scenes tc).
                    imageUrl (image_api e k
                        (enhancedPrompt (tc_scenes tc ! k) (generation_params body))) = None
                    \<longrightarrow> image_url (scenes (fc_content c) ! k) = [])
              \<and> (store_ok e InsertScenes \<longrightarrow>
                    card_scenes (fst (generateCardAsync e w sid body u t)) =
                      card_scenes w @ sceneData cid 0 (scenes (fc_content c))))
        \<and> api_log (fst (generateCardAsync e w sid body u t)) =
            api_log w @ [ChatCompletion (input_prompt body) (card_type body),
                         Moderation (moderatedText tc)]
              @ map (\<lambda>sc. ImageGenerate (enhancedPrompt sc (generation_params body))
                            (imageStyle (generation_params body))) (tc_scenes tc))
   \<and> (\<forall>f. generation_sessions (fst (generateCardAsync (e\<lparr>image_api := f\<rparr>) w sid body u t)) =
              generation_sessions (fst (generateCardAsync e w sid body u t))
          \<and> snd (generateCardAsync (e\<lparr>image_api := f\<rparr>) w sid body u t) =
              snd (generateCardAsync e w sid body u t))"
proof (intro conjI impI allI)
  assume h: "openai_api_key e
      \<and> chat_api e (input_prompt body) (card_type body) (generation_params body) = ChatParsed tc
      \<and> moderateContent e (moderatedText tc) = Inr ()
      \<and> card_insert e = Inr cid \<and> cid \<notin> set (map fc_id (flash_cards w))
      \<and> store_ok e UpdateCompleted"
  let ?gc = "contentOf e (generation_params body) tc"
  let ?c = "newCard cid u sid body ?gc t"
  have run: "generateCardAsync e w sid body u t =
     (updateUserUsage e u (gc_costs ?gc) t
        (updateSession (store_ok e UpdateCompleted) sid (markCompleted (gc_costs ?gc) t)
           (insertScenes e cid (scenes (gc_content ?gc))
              ((updateSession (store_ok e UpdateProcessing) sid markProcessing w)
                 \<lparr>api_log := api_log w @
                      [ChatCompletion (input_prompt body) (card_type body),
                       Moderation (moderatedText tc)]
                      @ map (\<lambda>sc. ImageGenerate (enhancedPrompt sc (generation_params body))
                                    (imageStyle (generation_params body))) (tc_scenes tc),
                   flash_cards := flash_cards w @ [?c]\<rparr>))),
      None)"
    using h by (intro generateCardAsync_success) simp_all
  show "snd (generateCardAsync e w sid body u t) = None"
    unfolding run by simp
  show "\<forall>s \<in> set (generation_sessions (fst (generateCardAsync e w sid body u t))).
              gs_id s = sid \<longrightarrow> gs_status s = Completed"
  proof -
    have "generation_sessions (fst (generateCardAsync e w sid body u t)) =
            generation_sessions (updateSession True sid (markCompleted (gc_costs ?gc) t)
               (updateSession (store_ok e UpdateProcessing) sid markProcessing w))"
      unfolding run using h by (simp add: sessions_updateSession)
    then show ?thesis
      using markCompleted_rows[where sid=sid and c="gc_costs ?gc" and t=t
              and w="updateSession (store_ok e UpdateProcessing) sid markProcessing w"]
      by simp
  qed
  show "\<exists>c. flash_cards (fst (generateCardAsync e w sid body u t)) = flash_cards w @ [c]
              \<and> fc_id c = cid \<and> fc_session_id c = sid \<and> fc_status c = Preview
              \<and> length (scenes (fc_content c)) = length (tc_scenes tc)
              \<and> (\<forall>k < length (tc_scenes tc).
                    scenes (fc_content c) ! k =
                      generatedScene (tc_scenes tc ! k)
                        (case imageUrl (image_api e k
                                 (enhancedPrompt (tc_scenes tc ! k) (generation_params body))) of
                           Some url \<Rightarrow> url | None \<Rightarrow> []))
              \<and> (\<forall>k < length (tc_scenes tc).
                    imageUrl (image_api e k
                        (enhancedPrompt (tc_scenes tc ! k) (generation_params body))) = None
                    \<longrightarrow> image_url (scenes (fc_content c) ! k) = [])
              \<and> (store_ok e InsertScenes \<longrightarrow>
                    card_scenes (fst (generateCardAsync e w sid body u t)) =
                      card_scenes w @ sceneData cid 0 (scenes (fc_content c)))"
  proof (intro exI[of _ ?c] conjI allI impI)
    show "flash_cards (fst (generateCardAsync e w sid body u t)) = flash_cards w @ [?c]"
      unfolding run by simp
    show "fc_id ?c = cid" "fc_session_id ?c = sid" "fc_status ?c = Preview"
      by (simp_all add: newCard_def)
    show "length (scenes (fc_content ?c)) = length (tc_scenes tc)"
      by (simp add: newCard_def contentOf_def generateSceneImages_length)
    show "scenes (fc_content ?c) ! k =
            generatedScene (tc_scenes tc ! k)
              (case imageUrl (image_api e k
                       (enhancedPrompt (tc_scenes tc ! k) (generation_params body))) of
                 Some url \<Rightarrow> url | None \<Rightarrow> [])"
      if "k < length (tc_scenes tc)" for k
      using generateSceneImages_nth[OF that, of e "generation_params body" 0]
      by (simp add: newCard_def contentOf_def)
    show "image_url (scenes (fc_content ?c) ! k) = []"
      if "k < length (tc_scenes tc)"
        and "imageUrl (image_api e k
               (enhancedPrompt (tc_scenes tc ! k) (generation_params body))) = None" for k
      using generateSceneImages_nth[OF that(1), of e "generation_params body" 0] that(2)
      by (simp add: newCard_def contentOf_def generatedScene_def)
    show "card_scenes (fst (generateCardAsync e w sid body u t)) =
            card_scenes w @ sceneData cid 0 (scenes (fc_content ?c))"
      if "store_ok e InsertScenes"
      unfolding run using that
      by (simp add: card_scenes_insertScenes newCard_def)
  qed
  show "api_log (fst (generateCardAsync e w sid body u t)) =
            api_log w @ [ChatCompletion (input_prompt body) (card_type body),
                         Moderation (moderatedText tc)]
              @ map (\<lambda>sc. ImageGenerate (enhancedPrompt sc (generation_params body))
                            (imageStyle (generation_params body))) (tc_scenes tc)"
    unfolding run by simp
next
  fix f
  show "generation_sessions (fst (generateCardAsync (e\<lparr>image_api := f\<rparr>) w sid body u t)) =
              generation_sessions (fst (generateCardAsync e w sid body u t))"
    using image_api_irrelevant[where e=e and f=f and w=w and sid=sid and body=body and u=u and t=t] by simp
  show "snd (generateCardAsync (e\<lparr>image_api := f\<rparr>) w sid body u t) =
              snd (generateCardAsync e w sid body u t)"
    using image_api_irrelevant[where e=e and f=f and w=w and sid=sid and body=body and u=u and t=t] by simp
qed

theorem image_failures_do_not_fail_session_witness:
  "openai_api_key demoEnv
   \<and> chat_api demoEnv (input_prompt demoBody) (card_type demoBody) (generation_params demoBody)
     = ChatParsed demoText
   \<and> moderateContent demoEnv (moderatedText demoText) = Inr ()
   \<and> card_insert demoEnv = Inr ''c1''
   \<and> ''c1'' \<notin> set (map fc_id (flash_cards pendingWorld))
   \<and> store_ok demoEnv UpdateCompleted
   \<and> imageUrl (image_api demoEnv 1
        (enhancedPrompt (tc_scenes demoText ! 1) (generation_params demoBody))) = None
   \<and> snd (generateCardAsync demoEnv pendingWorld ''s1'' demoBody ''u1'' 2000) = None
   \<and> map gs_status
        (generation_sessions (fst (generateCardAsync demoEnv pendingWorld ''s1'' demoBody ''u1'' 2000)))
       = [Completed]
   \<and> map (map image_url)
        (map scenes (map fc_content
           (flash_cards (fst (generateCardAsync demoEnv pendingWorld ''s1'' demoBody ''u1'' 2000)))))
       = [[''img1'', '''']]"
proof -
  have h: "openai_api_key demoEnv
   \<and> chat_api demoEnv (input_prompt demoBody) (card_type demoBody) (generation_params demoBody)
     = ChatParsed demoText
   \<and> moderateContent demoEnv (moderatedText demoText) = Inr ()
   \<and> card_insert demoEnv = Inr ''c1''
   \<and> ''c1'' \<notin> set (map fc_id (flash_cards pendingWorld))
   \<and> store_ok demoEnv UpdateCompleted"
    by (simp add: eval_defs)
  have i: "imageUrl (image_api demoEnv 1
        (enhancedPrompt (tc_scenes demoText ! 1) (generation_params demoBody))) = None"
    by (simp add: eval_defs)
  have v: "map gs_status
        (generation_sessions (fst (generateCardAsync demoEnv pendingWorld ''s1'' demoBody ''u1'' 2000)))
       = [Completed]
   \<and> map (map image_url)
        (map scenes (map fc_content
           (flash_cards (fst (generateCardAsync demoEnv pendingWorld ''s1'' demoBody ''u1'' 2000)))))
       = [[''img1'', '''']]"
    by (simp add: eval_defs Let_def)
  from image_failures_do_not_fail_session[where e=demoEnv and body=demoBody and tc=demoText
        and cid="''c1''" and w=pendingWorld and sid="''s1''" and u="''u1''" and t=2000] h
  have "snd (generateCardAsync demoEnv pendingWorld ''s1'' demoBody ''u1'' 2000) = None"
    by blast
  with h i v show ?thesis by (intro conjI) simp_all
qed

text \<open>
  C4. When the first result of the moderation is flagged, the background function ends
  with the error \<^verbatim>\<open>Content policy violation: \<close> followed by the flagged categories, joined
  by a comma and a space; the calls of the run are the completion and the moderation, and no
  image call; no card and no scene row is stored; and the session is Failed with that
  message as soon as the store applies one of the two updates.
\<close>

theorem flagged_content_fails_session:
  assumes key: "openai_api_key e"
    and chat: "chat_api e (input_prompt body) (card_type body) (generation_params body)
                   = ChatParsed tc"
    and results: "moderation_api e (moderatedText tc) = ModerationResults (r # rs)"
    and flag: "flagged r"
  shows "snd (generateCardAsync e w sid body u t) =
           Some (''Content policy violation: '' @ join '', '' (map fst (filter snd (categories r))))
       \<and> api_log (runBackground e w sid body u t t') =
           api_log w @ [ChatCompletion (input_prompt body) (card_type body),
                        Moderation (moderatedText tc)]
       \<and> flash_cards (runBackground e w sid body u t t') = flash_cards w
       \<and> card_scenes (runBackground e w sid body u t t') = card_scenes w
       \<and> (store_ok e UpdateFailed \<or> store_ok e HandlerUpdateFailed \<longrightarrow>
            (\<forall>s \<in> set (generation_sessions (runBackground e w sid body u t t')).
               gs_id s = sid \<longrightarrow>
                 gs_status s = Failed
                 \<and> gs_error_message s =
                     Some (''Content policy violation: ''
                             @ join '', '' (map fst (filter snd (categories r))))))"
proof -
  let ?m = "''Content policy violation: '' @ join '', '' (map fst (filter snd (categories r)))"
  have moderated: "moderateContent e (moderatedText tc) = Inl ?m"
    using results flag by (simp add: moderateContent_def policyViolation_def)
  have run: "generateCardAsync e w sid body u t =
           (updateSession (store_ok e UpdateFailed) sid (markFailed ?m t)
              ((updateSession (store_ok e UpdateProcessing) sid markProcessing w)
                 \<lparr>api_log := api_log w @ [ChatCompletion (input_prompt body) (card_type body),
                        Moderation (moderatedText tc)]\<rparr>), Some ?m)"
    by (rule generateCardAsync_content_fails[OF generateCardContent_flagged[OF chat moderated] key])
  have a: "snd (generateCardAsync e w sid body u t) = Some ?m"
    unfolding run by simp
  have b: "api_log (runBackground e w sid body u t t') =
           api_log w @ [ChatCompletion (input_prompt body) (card_type body),
                        Moderation (moderatedText tc)]"
    unfolding api_log_runBackground run by simp
  have c: "flash_cards (runBackground e w sid body u t t') = flash_cards w"
    unfolding flash_cards_runBackground run by simp
  have d: "card_scenes (runBackground e w sid body u t t') = card_scenes w"
    unfolding card_scenes_runBackground run by simp
  have e: "store_ok e UpdateFailed \<or> store_ok e HandlerUpdateFailed \<longrightarrow>
            (\<forall>s \<in> set (generation_sessions (runBackground e w sid body u t t')).
               gs_id s = sid \<longrightarrow> gs_status s = Failed \<and> gs_error_message s = Some ?m)"
  proof
    assume ok: "store_ok e UpdateFailed \<or> store_ok e HandlerUpdateFailed"
    from ok key have ok': "(openai_api_key e \<and> store_ok e UpdateFailed)
                            \<or> store_ok e HandlerUpdateFailed"
      by blast
    from failed_run_rows[OF run ok', of t']
    show "\<forall>s \<in> set (generation_sessions (runBackground e w sid body u t t')).
               gs_id s = sid \<longrightarrow> gs_status s = Failed \<and> gs_error_message s = Some ?m"
      by blast
  qed
  from a b c d e show ?thesis by (intro conjI)
qed

theorem flagged_content_fails_session_witness:
  "chat_api flaggedEnv (input_prompt demoBody) (card_type demoBody) (generation_params demoBody)
     = ChatParsed demoText
   \<and> moderation_api flaggedEnv (moderatedText demoText) =
       ModerationResults
         [\<lparr>flagged = True,
           categories = [(''violence'', True), (''sexual'', False), (''hate'', True)]\<rparr>]
   \<and> snd (generateCardAsync flaggedEnv pendingWorld ''s1'' demoBody ''u1'' 2000) =
       Some ''Content policy violation: violence, hate''
   \<and> api_log (runBackground flaggedEnv pendingWorld ''s1'' demoBody ''u1'' 2000 3000) =
       [ChatCompletion ''elephant'' SingleWord, Moderation ''zoo river'']
   \<and> flash_cards (runBackground flaggedEnv pendingWorld ''s1'' demoBody ''u1'' 2000 3000) = []"
proof -
  have k: "openai_api_key flaggedEnv"
    by (simp add: eval_defs)
  have c: "chat_api flaggedEnv (input_prompt demoBody) (card_type demoBody)
             (generation_params demoBody) = ChatParsed demoText"
    by (simp add: eval_defs)
  have m: "moderation_api flaggedEnv (moderatedText demoText) =
       ModerationResults
         (\<lparr>flagged = True,
           categories = [(''violence'', True), (''sexual'', False), (''hate'', True)]\<rparr> # [])"
    by (simp add: eval_defs)
  have f: "flagged \<lparr>flagged = True,
           categories = [(''violence'', True), (''sexual'', False), (''hate'', True)]\<rparr>"
    by simp
  have p: "api_log pendingWorld = [] \<and> flash_cards pendingWorld = []
           \<and> input_prompt demoBody = ''elephant'' \<and> card_type demoBody = SingleWord
           \<and> moderatedText demoText = ''zoo river''"
    by (simp add: eval_defs)
  from flagged_content_fails_session[OF k c m f, of pendingWorld "''s1''" "''u1''" 2000 3000] p
  have "snd (generateCardAsync flaggedEnv pendingWorld ''s1'' demoBody ''u1'' 2000) =
       Some ''Content policy violation: violence, hate''
   \<and> api_log (runBackground flaggedEnv pendingWorld ''s1'' demoBody ''u1'' 2000 3000) =
       [ChatCompletion ''elephant'' SingleWord, Moderation ''zoo river'']
   \<and> flash_cards (runBackground flaggedEnv pendingWorld ''s1'' demoBody ''u1'' 2000 3000) = []"
    by simp
  with c m show ?thesis by simp
qed

text \<open>
  C5, as the code has it. The costs of a generated card are computed from the token usage
  of the text (0 when the usage is absent) and from the number of scenes returned by the
  image loop, which is the number of scenes of the text: a scene whose image call failed
  counts like the others. The total is the sum of the cost of the text and the cost of
  that many images, in the arithmetic of doubles, written with four decimals. Those are
  the costs stored on the session when it is completed.
\<close>

theorem costs_count_every_scene:
  assumes chat: "chat_api e (input_prompt body) (card_type body) (generation_params body)
                   = ChatParsed tc"
    and moderated: "moderateContent e (moderatedText tc) = Inr ()"
  shows "(\<exists>calls gc.
            generateCardContent e (input_prompt body) (card_type body) (generation_params body)
              = (calls, Inr gc)
            \<and> gc_costs gc =
                calculateCosts (case tc_usage tc of None \<Rightarrow> 0 | Some n \<Rightarrow> n)
                  (length (tc_scenes tc))
            \<and> image_generations (gc_costs gc) = length (scenes (gc_content gc))
            \<and> length (scenes (gc_content gc)) = length (tc_scenes tc)
            \<and> total_cost_usd (gc_costs gc) =
                of_nat (toFixed4
                  (dadd (textCost (case tc_usage tc of None \<Rightarrow> 0 | Some n \<Rightarrow> n))
                        (imageCost (length (tc_scenes tc))))) / 10000)
       \<and> (openai_api_key e \<and> card_insert e = Inr cid
            \<and> cid \<notin> set (map fc_id (flash_cards w))
            \<and> store_ok e UpdateCompleted \<longrightarrow>
            (\<forall>s \<in> set (generation_sessions (fst (generateCardAsync e w sid body u t))).
               gs_id s = sid \<longrightarrow>
                 gs_status s = Completed
                 \<and> gs_ai_costs s =
                     calculateCosts (case tc_usage tc of None \<Rightarrow> 0 | Some n \<Rightarrow> n)
                       (length (tc_scenes tc))))"
proof (intro conjI impI)
  let ?gc = "contentOf e (generation_params body) tc"
  have g: "generateCardContent e (input_prompt body) (card_type body) (generation_params body)
             = ([ChatCompletion (input_prompt body) (card_type body), Moderation (moderatedText tc)]
                  @ map (\<lambda>sc. ImageGenerate (enhancedPrompt sc (generation_params body))
                                (imageStyle (generation_params body))) (tc_scenes tc),
                Inr ?gc)"
    using chat moderated by (rule generateCardContent_parsed)
  have "gc_costs ?gc =
          calculateCosts (case tc_usage tc of None \<Rightarrow> 0 | Some n \<Rightarrow> n) (length (tc_scenes tc))
        \<and> image_generations (gc_costs ?gc) = length (scenes (gc_content ?gc))
        \<and> length (scenes (gc_content ?gc)) = length (tc_scenes tc)
        \<and> total_cost_usd (gc_costs ?gc) =
            of_nat (toFixed4
              (dadd (textCost (case tc_usage tc of None \<Rightarrow> 0 | Some n \<Rightarrow> n))
                    (imageCost (length (tc_scenes tc))))) / 10000"
    by (simp add: contentOf_def calculateCosts_def generateSceneImages_length)
  with g show "\<exists>calls gc.
            generateCardContent e (input_prompt body) (card_type body) (generation_params body)
              = (calls, Inr gc)
            \<and> gc_costs gc =
                calculateCosts (case tc_usage tc of None \<Rightarrow> 0 | Some n \<Rightarrow> n)
                  (length (tc_scenes tc))
            \<and> image_generations (gc_costs gc) = length (scenes (gc_content gc))
            \<and> length (scenes (gc_content gc)) = length (tc_scenes tc)
            \<and> total_cost_usd (gc_costs gc) =
                of_nat (toFixed4
                  (dadd (textCost (case tc_usage tc of None \<Rightarrow> 0 | Some n \<Rightarrow> n))
                        (imageCost (length (tc_scenes tc))))) / 10000"
    by blast
next
  assume h: "openai_api_key e \<and> card_insert e = Inr cid
            \<and> cid \<notin> set (map fc_id (flash_cards w))
            \<and> store_ok e UpdateCompleted"
  let ?c = "calculateCosts (case tc_usage tc of None \<Rightarrow> 0 | Some n \<Rightarrow> n) (length (tc_scenes tc))"
  have "generation_sessions (fst (generateCardAsync e w sid body u t)) =
          generation_sessions (updateSession True sid (markCompleted ?c t)
             (updateSession (store_ok e UpdateProcessing) sid markProcessing w))"
    using h generateCardAsync_success[OF chat moderated, of cid w sid u t]
    by (simp add: sessions_updateSession contentOf_def)
  then show "\<forall>s \<in> set (generation_sessions (fst (generateCardAsync e w sid body u t))).
               gs_id s = sid \<longrightarrow> gs_status s = Completed \<and> gs_ai_costs s = ?c"
    using markCompleted_rows[where sid=sid and c="?c" and t=t
              and w="updateSession (store_ok e UpdateProcessing) sid markProcessing w"]
    by simp
qed

theorem costs_count_every_scene_witness:
  "chat_api demoEnv (input_prompt demoBody) (card_type demoBody) (generation_params demoBody)
     = ChatParsed demoText
   \<and> moderateContent demoEnv (moderatedText demoText) = Inr ()
   \<and> openai_api_key demoEnv
   \<and> card_insert demoEnv = Inr ''c1''
   \<and> ''c1'' \<notin> set (map fc_id (flash_cards pendingWorld))
   \<and> store_ok demoEnv UpdateCompleted
   \<and> list_all (\<lambda>s. gs_ai_costs s = calculateCosts 1000 2)
        (generation_sessions (fst (generateCardAsync demoEnv pendingWorld ''s1'' demoBody ''u1'' 2000)))"
proof -
  have c: "chat_api demoEnv (input_prompt demoBody) (card_type demoBody) (generation_params demoBody)
     = ChatParsed demoText"
    and m: "moderateContent demoEnv (moderatedText demoText) = Inr ()"
    by (simp_all add: eval_defs)
  have h: "openai_api_key demoEnv
   \<and> card_insert demoEnv = Inr ''c1''
   \<and> ''c1'' \<notin> set (map fc_id (flash_cards pendingWorld))
   \<and> store_ok demoEnv UpdateCompleted"
    by (simp add: eval_defs)
  have i: "list_all (\<lambda>s. gs_id s = ''s1'')
        (generation_sessions (fst (generateCardAsync demoEnv pendingWorld ''s1'' demoBody ''u1'' 2000)))"
    by (simp add: eval_defs Let_def)
  have t: "(case tc_usage demoText of None \<Rightarrow> 0 | Some n \<Rightarrow> n) = 1000"
    "length (tc_scenes demoText) = 2"
    by (simp_all add: demoText_def)
  from costs_count_every_scene[OF c m, of "''c1''" pendingWorld "''s1''" "''u1''" 2000] h
  have "\<forall>s \<in> set (generation_sessions
            (fst (generateCardAsync demoEnv pendingWorld ''s1'' demoBody ''u1'' 2000))).
          gs_id s = ''s1'' \<longrightarrow> gs_ai_costs s = calculateCosts 1000 2"
    unfolding t by blast
  with i have "list_all (\<lambda>s. gs_ai_costs s = calculateCosts 1000 2)
        (generation_sessions (fst (generateCardAsync demoEnv pendingWorld ''s1'' demoBody ''u1'' 2000)))"
    by (simp add: list_all_iff)
  with c m h show ?thesis by simp
qed

text \<open>Two scenes, the image call of the second one fails: the session is Completed with
  \<^verbatim>\<open>image_generations = 2\<close> and the total 0.125, the cost of 1000 tokens and two images;
  with one image the total is 0.085.\<close>

theorem failed_image_is_counted_counterexample:
  "imageUrl (image_api demoEnv 1
        (enhancedPrompt (tc_scenes demoText ! 1) (generation_params demoBody))) = None
   \<and> map gs_status
        (generation_sessions (fst (generateCardAsync demoEnv pendingWorld ''s1'' demoBody ''u1'' 2000)))
       = [Completed]
   \<and> map (map image_url)
        (map scenes (map fc_content
           (flash_cards (fst (generateCardAsync demoEnv pendingWorld ''s1'' demoBody ''u1'' 2000)))))
       = [[''img1'', '''']]
   \<and> map image_generations (map gs_ai_costs
        (generation_sessions (fst (generateCardAsync demoEnv pendingWorld ''s1'' demoBody ''u1'' 2000))))
       = [2]
   \<and> map total_cost_usd (map gs_ai_costs
        (generation_sessions (fst (generateCardAsync demoEnv pendingWorld ''s1'' demoBody ''u1'' 2000))))
       = [1250 / 10000]
   \<and> total_cost_usd (calculateCosts 1000 1) = 850 / 10000"
proof -
  have two: "toFixed4 (dadd (textCost 1000) (imageCost (Suc (Suc 0)))) = 1250"
    using total_1000_2 by (simp add: numeral_2_eq_2)
  have one: "toFixed4 (dadd (textCost 1000) (imageCost (Suc 0))) = 850"
    using total_1000_1 by (simp only: One_nat_def)
  show ?thesis
    by (simp add: eval_defs Let_def two one)
qed

text \<open>
  C6, at the last millisecond of the day. User \<^verbatim>\<open>u1\<close> of the free tier, whose limit is
  5, has created five sessions during the calendar day, the fifth one at 23:59:59.999.
  The query of \<^verbatim>\<open>checkUserQuota\<close> counts the rows with \<^verbatim>\<open>created_at\<close> before
  23:59:59.999 and finds four: a request made in that millisecond passes the gate, and a
  sixth session of the day is stored and returned.
\<close>

theorem quota_misses_last_millisecond:
  "filter (\<lambda>u. u_id u = ''u1'') (users lateWorld)
     = [\<lparr>u_id = ''u1'', u_subscription_tier = Some ''free''\<rparr>]
   \<and> map gs_user_id (generation_sessions lateWorld) = [''u1'', ''u1'', ''u1'', ''u1'', ''u1'']
   \<and> map gs_created_at (generation_sessions lateWorld) = [100, 100, 100, 100, 86399999]
   \<and> calendarDay 100 = 0 \<and> calendarDay 86399999 = 0
   \<and> length (createdOnDay lateWorld ''u1'' 86399999) = 5
   \<and> sessionsToday lateWorld ''u1'' 86399999 = 4
   \<and> POST demoEnv lateWorld demoRequest 86399999 =
       (lateWorld\<lparr>generation_sessions :=
                   generation_sessions lateWorld
                     @ [newSession ''s1'' ''u1'' demoBody 86399999]\<rparr>,
        Inr (newSession ''s1'' ''u1'' demoBody 86399999))
   \<and> length (createdOnDay (fst (POST demoEnv lateWorld demoRequest 86399999)) ''u1'' 86399999)
       = 6"
  by (simp add: example_defs route_defs calendarDay_def createdOnDay_def Let_def digit_char_def)

text \<open>
  C7. When the count query does not answer with a count (it throws, or it resolves with an
  error), \<^verbatim>\<open>checkUserQuota\<close> allows the call; a valid request is then not refused by the
  quota gate, and with a successful insert the route stores a new Pending session and
  returns it.
\<close>

theorem quota_fails_open:
  assumes "count_lookup e \<noteq> LookupOk"
  shows "checkUserQuota e w user now = \<lparr>allowed = True, message = None\<rparr>
       \<and> (validateRequest GenerateCardSchema req = Inr (body, user)
            \<and> session_insert e = Inr sid
            \<and> sid \<notin> set (map gs_id (generation_sessions w)) \<longrightarrow>
            POST e w req now =
              (w\<lparr>generation_sessions :=
                   generation_sessions w @ [newSession sid user body now]\<rparr>,
               Inr (newSession sid user body now))
            \<and> gs_status (newSession sid user body now) = Pending)"
proof -
  have l: "0 < l" if "map_of quotaLimits tier = Some l" for tier l
    using that by (auto simp: quotaLimits_def split: if_splits)
  have q: "checkUserQuota e w user now = \<lparr>allowed = True, message = None\<rparr>"
  proof (cases "count_lookup e")
    case LookupOk
    with assms show ?thesis by simp
  next
    case LookupError
    then show ?thesis
      using l by (auto simp: checkUserQuota_def Let_def split: option.splits)
  next
    case LookupThrows
    then show ?thesis by (simp add: checkUserQuota_def Let_def)
  qed
  have "POST e w req now =
              (w\<lparr>generation_sessions :=
                   generation_sessions w @ [newSession sid user body now]\<rparr>,
               Inr (newSession sid user body now))
            \<and> gs_status (newSession sid user body now) = Pending"
    if h: "validateRequest GenerateCardSchema req = Inr (body, user)
            \<and> session_insert e = Inr sid
            \<and> sid \<notin> set (map gs_id (generation_sessions w))"
    using POST_admitted[of req body user e w now sid] h q by (simp add: newSession_def)
  with q show ?thesis by blast
qed

theorem quota_fails_open_witness:
  "count_lookup throwingCountEnv \<noteq> LookupOk
   \<and> sessionsToday quotaWorld ''u1'' 1000 = 5
   \<and> allowed (checkUserQuota throwingCountEnv quotaWorld ''u1'' 1000)
   \<and> POST throwingCountEnv quotaWorld demoRequest 1000 =
       (quotaWorld\<lparr>generation_sessions :=
                    generation_sessions quotaWorld @ [newSession ''s1'' ''u1'' demoBody 1000]\<rparr>,
        Inr (newSession ''s1'' ''u1'' demoBody 1000))"
proof -
  have c: "count_lookup throwingCountEnv \<noteq> LookupOk"
    by (simp add: throwingCountEnv_def)
  have v: "validateRequest GenerateCardSchema demoRequest = Inr (demoBody, ''u1'')"
    by (simp add: validateRequest_def GenerateCardSchema_def demoRequest_def demoBody_def)
  have n5: "sessionsToday quotaWorld ''u1'' 1000 = 5"
    by (simp add: sessionsToday_def today_def dayStart_def dayEnd_def msPerDay_def
          quotaWorld_def sessionsOf_def newSession_def)
  have i: "session_insert throwingCountEnv = Inr ''s1''"
    by (simp add: throwingCountEnv_def demoEnv_def)
  have f: "''s1'' \<notin> set (map gs_id (generation_sessions quotaWorld))"
    by (simp add: quotaWorld_def sessionsOf_def newSession_def)
  from quota_fails_open[OF c, of quotaWorld "''u1''" 1000 demoRequest demoBody "''s1''"] v i f
  have "allowed (checkUserQuota throwingCountEnv quotaWorld ''u1'' 1000)
   \<and> POST throwingCountEnv quotaWorld demoRequest 1000 =
       (quotaWorld\<lparr>generation_sessions :=
                    generation_sessions quotaWorld @ [newSession ''s1'' ''u1'' demoBody 1000]\<rparr>,
        Inr (newSession ''s1'' ''u1'' demoBody 1000))"
    by simp
  with c n5 show ?thesis by simp
qed

text \<open>
  C8, as the code has it. For a card of the user, \<^verbatim>\<open>approveCard\<close> sets the status to
  Approved, whatever the status was, and the trigger of the table sets \<^verbatim>\<open>updated_at\<close> to
  the time of the call; the row so stored is the card returned. Approving a second time
  gives the card and the table that a single call at the second time gives, so the two
  cards returned differ in \<^verbatim>\<open>updated_at\<close> only. A card that is already Approved is
  returned and stored with the new \<^verbatim>\<open>updated_at\<close> and no other change.
\<close>

theorem approve_sets_approved:
  assumes "filter (\<lambda>c. fc_id c = cardId \<and> fc_user_id c = userId) (flash_cards w) = [c]"
  shows "snd (approveCard w cardId userId now) =
           Inr (c\<lparr>fc_status := Approved, fc_updated_at := now\<rparr>)
       \<and> flash_cards (fst (approveCard w cardId userId now)) =
           map (\<lambda>x. if fc_id x = cardId \<and> fc_user_id x = userId
                     then x\<lparr>fc_status := Approved, fc_updated_at := now\<rparr> else x)
             (flash_cards w)
       \<and> approveCard (fst (approveCard w cardId userId now)) cardId userId later =
           approveCard w cardId userId later
       \<and> snd (approveCard (fst (approveCard w cardId userId now)) cardId userId later) =
           Inr (c\<lparr>fc_status := Approved, fc_updated_at := later\<rparr>)
       \<and> (fc_status c = Approved \<longrightarrow>
            snd (approveCard w cardId userId now) = Inr (c\<lparr>fc_updated_at := now\<rparr>)
            \<and> flash_cards (fst (approveCard w cardId userId now)) =
                map (\<lambda>x. if fc_id x = cardId \<and> fc_user_id x = userId
                          then x\<lparr>fc_updated_at := now\<rparr> else x) (flash_cards w))"
proof -
  let ?upd = "\<lambda>t x. if fc_id x = cardId \<and> fc_user_id x = userId then setApproved t x else x"
  have first: "approveCard w cardId userId t =
                 (w\<lparr>flash_cards := map (?upd t) (flash_cards w)\<rparr>, Inr (setApproved t c))" for t
    using assms by (simp add: approveCard_def)
  have again: "filter (\<lambda>c. fc_id c = cardId \<and> fc_user_id c = userId)
                 (map (?upd now) (flash_cards w)) = [setApproved now c]"
    unfolding filter_map_approved assms by simp
  have twice: "setApproved later (setApproved now c) = setApproved later c"
    by (simp add: setApproved_def)
  have second: "approveCard (w\<lparr>flash_cards := map (?upd now) (flash_cards w)\<rparr>) cardId userId later =
                 (w\<lparr>flash_cards := map (?upd later) (flash_cards w)\<rparr>, Inr (setApproved later c))"
    using again by (simp add: approveCard_def comp_approved twice)
  have a: "snd (approveCard w cardId userId now) =
             Inr (c\<lparr>fc_status := Approved, fc_updated_at := now\<rparr>)"
    by (simp add: first setApproved_def)
  have b: "flash_cards (fst (approveCard w cardId userId now)) =
           map (\<lambda>x. if fc_id x = cardId \<and> fc_user_id x = userId
                     then x\<lparr>fc_status := Approved, fc_updated_at := now\<rparr> else x)
             (flash_cards w)"
    by (simp add: first setApproved_def)
  have c: "approveCard (fst (approveCard w cardId userId now)) cardId userId later =
           approveCard w cardId userId later"
    by (simp add: first[of now] second first[of later])
  have d: "snd (approveCard (fst (approveCard w cardId userId now)) cardId userId later) =
           Inr (c\<lparr>fc_status := Approved, fc_updated_at := later\<rparr>)"
    unfolding c by (simp add: first setApproved_def)
  have e: "snd (approveCard w cardId userId now) = Inr (c\<lparr>fc_updated_at := now\<rparr>)
            \<and> flash_cards (fst (approveCard w cardId userId now)) =
                map (\<lambda>x. if fc_id x = cardId \<and> fc_user_id x = userId
                          then x\<lparr>fc_updated_at := now\<rparr> else x) (flash_cards w)"
    if st: "fc_status c = Approved"
  proof
    from st have "c\<lparr>fc_status := Approved, fc_updated_at := now\<rparr> = c\<lparr>fc_updated_at := now\<rparr>"
      by simp
    with a show "snd (approveCard w cardId userId now) = Inr (c\<lparr>fc_updated_at := now\<rparr>)"
      by simp
    have "map (\<lambda>x. if fc_id x = cardId \<and> fc_user_id x = userId
                     then x\<lparr>fc_status := Approved, fc_updated_at := now\<rparr> else x)
             (flash_cards w) =
          map (\<lambda>x. if fc_id x = cardId \<and> fc_user_id x = userId
                          then x\<lparr>fc_updated_at := now\<rparr> else x) (flash_cards w)"
    proof (rule map_cong[OF refl])
      fix x assume x: "x \<in> set (flash_cards w)"
      show "(if fc_id x = cardId \<and> fc_user_id x = userId
               then x\<lparr>fc_status := Approved, fc_updated_at := now\<rparr> else x) =
            (if fc_id x = cardId \<and> fc_user_id x = userId
               then x\<lparr>fc_updated_at := now\<rparr> else x)"
      proof (cases "fc_id x = cardId \<and> fc_user_id x = userId")
        case True
        with x have "x \<in> set (filter (\<lambda>c. fc_id c = cardId \<and> fc_user_id c = userId)
                                 (flash_cards w))"
          by simp
        then have "x = c" unfolding assms by simp
        with st have "x\<lparr>fc_status := Approved, fc_updated_at := now\<rparr> = x\<lparr>fc_updated_at := now\<rparr>"
          by simp
        then show ?thesis by simp
      next
        case False
        show ?thesis by (simp only: if_not_P[OF False])
      qed
    qed
    with b show "flash_cards (fst (approveCard w cardId userId now)) =
                map (\<lambda>x. if fc_id x = cardId \<and> fc_user_id x = userId
                          then x\<lparr>fc_updated_at := now\<rparr> else x) (flash_cards w)"
      by simp
  qed
  from a b c d e show ?thesis by blast
qed

theorem approve_sets_approved_witness:
  "filter (\<lambda>c. fc_id c = ''c1'' \<and> fc_user_id c = ''u1'') (flash_cards downloadedWorld)
     = [demoCard Downloaded]
   \<and> snd (approveCard downloadedWorld ''c1'' ''u1'' 5000)
       = Inr ((demoCard Approved)\<lparr>fc_updated_at := 5000\<rparr>)
   \<and> approveCard (fst (approveCard downloadedWorld ''c1'' ''u1'' 5000)) ''c1'' ''u1'' 6000
       = approveCard downloadedWorld ''c1'' ''u1'' 6000
   \<and> snd (approveCard (fst (approveCard downloadedWorld ''c1'' ''u1'' 5000)) ''c1'' ''u1'' 6000)
       = Inr ((demoCard Approved)\<lparr>fc_updated_at := 6000\<rparr>)
   \<and> filter (\<lambda>c. fc_id c = ''c1'' \<and> fc_user_id c = ''u1'') (flash_cards approvedWorld)
       = [demoCard Approved]
   \<and> fc_status (demoCard Approved) = Approved
   \<and> fc_updated_at (demoCard Approved) = 1000
   \<and> snd (approveCard approvedWorld ''c1'' ''u1'' 5000)
       = Inr ((demoCard Approved)\<lparr>fc_updated_at := 5000\<rparr>)"
proof -
  have h: "filter (\<lambda>c. fc_id c = ''c1'' \<and> fc_user_id c = ''u1'') (flash_cards downloadedWorld)
     = [demoCard Downloaded]"
    by (simp add: downloadedWorld_def demoWorld_def demoCard_def)
  have g: "filter (\<lambda>c. fc_id c = ''c1'' \<and> fc_user_id c = ''u1'') (flash_cards approvedWorld)
     = [demoCard Approved]"
    by (simp add: approvedWorld_def demoWorld_def demoCard_def)
  have a: "(demoCard Downloaded)\<lparr>fc_status := Approved, fc_updated_at := t\<rparr>
             = (demoCard Approved)\<lparr>fc_updated_at := t\<rparr>" for t
    by (simp add: demoCard_def)
  have s: "fc_status (demoCard Approved) = Approved" "fc_updated_at (demoCard Approved) = 1000"
    by (simp_all add: demoCard_def)
  from approve_sets_approved[OF h, of 5000 6000] approve_sets_approved[OF h, of 6000 6000] a
  have d: "snd (approveCard downloadedWorld ''c1'' ''u1'' 5000)
       = Inr ((demoCard Approved)\<lparr>fc_updated_at := 5000\<rparr>)
   \<and> approveCard (fst (approveCard downloadedWorld ''c1'' ''u1'' 5000)) ''c1'' ''u1'' 6000
       = approveCard downloadedWorld ''c1'' ''u1'' 6000
   \<and> snd (approveCard (fst (approveCard downloadedWorld ''c1'' ''u1'' 5000)) ''c1'' ''u1'' 6000)
       = Inr ((demoCard Approved)\<lparr>fc_updated_at := 6000\<rparr>)"
    by simp
  from approve_sets_approved[OF g, of 5000 6000] s
  have "snd (approveCard approvedWorld ''c1'' ''u1'' 5000)
       = Inr ((demoCard Approved)\<lparr>fc_updated_at := 5000\<rparr>)"
    by blast
  with h d g s show ?thesis by blast
qed

text \<open>A Downloaded card of the user is Approved after the call: it is not returned
  unchanged.\<close>

theorem approve_moves_downloaded_back_counterexample:
  "map fc_user_id (flash_cards downloadedWorld) = [''u1'']
   \<and> map fc_status (flash_cards downloadedWorld) = [Downloaded]
   \<and> map fc_status (flash_cards (fst (approveCard downloadedWorld ''c1'' ''u1'' 5000)))
       = [Approved]
   \<and> snd (approveCard downloadedWorld ''c1'' ''u1'' 5000)
       = Inr ((demoCard Approved)\<lparr>fc_updated_at := 5000\<rparr>)
   \<and> fc_status ((demoCard Approved)\<lparr>fc_updated_at := 5000\<rparr>) = Approved
   \<and> fc_status (demoCard Downloaded) = Downloaded"
  by (simp add: approveCard_def setApproved_def downloadedWorld_def demoWorld_def demoCard_def)

text \<open>
  C9, at the request that the clients of the route send. The status route validates a
  body before it looks the session up, and a \<^verbatim>\<open>GET\<close> without a body has none. The
  request of user \<^verbatim>\<open>u2\<close> for the session \<^verbatim>\<open>s1\<close> of user \<^verbatim>\<open>u1\<close> is answered with
  \<^verbatim>\<open>VALIDATION_ERROR\<close>, status 400, and not with \<^verbatim>\<open>NOT_FOUND\<close>, status 404; the request of
  the owner is answered the same, and not with the session.
\<close>

theorem status_request_without_body:
  "map gs_id (generation_sessions pendingWorld) = [''s1'']
   \<and> map gs_user_id (generation_sessions pendingWorld) = [''u1'']
   \<and> statusRequest ''u2'' = \<lparr>req_body = None, req_user = Some ''u2''\<rparr>
   \<and> GET pendingWorld (statusRequest ''u2'') ''s1'' =
       Inl \<lparr>err_code = ''VALIDATION_ERROR'', err_message = ''Invalid request data'',
            err_status = 400\<rparr>
   \<and> statusRequest ''u1'' = \<lparr>req_body = None, req_user = Some ''u1''\<rparr>
   \<and> GET pendingWorld (statusRequest ''u1'') ''s1'' =
       Inl \<lparr>err_code = ''VALIDATION_ERROR'', err_message = ''Invalid request data'',
            err_status = 400\<rparr>"
  by (simp add: GET_def validateRequest_def statusRequest_def pendingWorld_def demoWorld_def
        newSession_def)

text \<open>
  C10. For a user whose tier is a non-empty name that is not a key of \<^verbatim>\<open>quotaLimits\<close>
  (an empty or absent tier counts as \<^verbatim>\<open>free\<close>), the lookup of the limit yields nothing and
  \<^verbatim>\<open>checkUserQuota\<close> allows the call, whatever sessions are stored and whatever the time.
\<close>

theorem unknown_tier_unlimited:
  assumes "user_lookup e = LookupOk"
    and "filter (\<lambda>u. u_id u = user) (users w) = [u]"
    and "u_subscription_tier u = Some tier" and "tier \<noteq> []"
    and "tier \<notin> set (map fst quotaLimits)"
  shows "map_of quotaLimits (userTier e (w\<lparr>generation_sessions := ss\<rparr>) user) = None
       \<and> checkUserQuota e (w\<lparr>generation_sessions := ss\<rparr>) user now
           = \<lparr>allowed = True, message = None\<rparr>"
proof -
  have t: "userTier e (w\<lparr>generation_sessions := ss\<rparr>) user = tier"
    using assms by (simp add: userTier_def)
  have n: "map_of quotaLimits tier = None"
    using assms(5) by (simp add: map_of_eq_None_iff)
  show ?thesis
    using assms(1) by (simp add: t n checkUserQuota_def Let_def)
qed

theorem unknown_tier_unlimited_witness:
  "user_lookup demoEnv = LookupOk
   \<and> filter (\<lambda>u. u_id u = ''u2'') (users demoWorld)
       = [\<lparr>u_id = ''u2'', u_subscription_tier = Some ''enterprise''\<rparr>]
   \<and> ''enterprise'' \<notin> set (map fst quotaLimits)
   \<and> sessionsToday
        (demoWorld\<lparr>generation_sessions :=
                     sessionsOf ''u2'' [''a'', ''b'', ''c'', ''d'', ''e'', ''f'']\<rparr>) ''u2'' 1000 = 6
   \<and> allowed (checkUserQuota demoEnv
        (demoWorld\<lparr>generation_sessions :=
                     sessionsOf ''u2'' [''a'', ''b'', ''c'', ''d'', ''e'', ''f'']\<rparr>) ''u2'' 1000)"
proof -
  have l: "user_lookup demoEnv = LookupOk" by (simp add: demoEnv_def)
  have u: "filter (\<lambda>u. u_id u = ''u2'') (users demoWorld)
       = [\<lparr>u_id = ''u2'', u_subscription_tier = Some ''enterprise''\<rparr>]"
    by (simp add: demoWorld_def)
  have k: "''enterprise'' \<notin> set (map fst quotaLimits)"
    by (simp add: quotaLimits_def)
  have n: "sessionsToday
        (demoWorld\<lparr>generation_sessions :=
                     sessionsOf ''u2'' [''a'', ''b'', ''c'', ''d'', ''e'', ''f'']\<rparr>) ''u2'' 1000 = 6"
    by (simp add: sessionsToday_def today_def dayStart_def dayEnd_def msPerDay_def
          sessionsOf_def newSession_def)
  from unknown_tier_unlimited[OF l u _ _ k,
         of "sessionsOf ''u2'' [''a'', ''b'', ''c'', ''d'', ''e'', ''f'']" 1000]
  have "allowed (checkUserQuota demoEnv
        (demoWorld\<lparr>generation_sessions :=
                     sessionsOf ''u2'' [''a'', ''b'', ''c'', ''d'', ''e'', ''f'']\<rparr>) ''u2'' 1000)"
    by simp
  with l u k n show ?thesis by (intro conjI)
qed

end
